theory Spec2Isabelle
  imports Main "HOL-Library.Sublist" "HOL-Library.Char_ord" "HOL-Library.List_Lexorder"
begin

unbundle bit_operations_syntax

section \<open>Strings and paths\<close>

text \<open>
  Go strings are byte sequences; they are modelled as \<open>string\<close> (a \<open>char list\<close>), compared
  bytewise. The helpers below stand for the functions of Go's \<open>strings\<close> and
  \<open>path/filepath\<close> packages that the program calls.
\<close>

definition hasPrefix :: "string \<Rightarrow> string \<Rightarrow> bool" where
  \<comment> \<open>\<open>strings.HasPrefix(s, p)\<close>\<close>
  "hasPrefix s p = prefix p s"

definition hasSuffix :: "string \<Rightarrow> string \<Rightarrow> bool" where
  \<comment> \<open>\<open>strings.HasSuffix(s, p)\<close>\<close>
  "hasSuffix s p = prefix (rev p) (rev s)"

definition trimSuffix :: "string \<Rightarrow> string \<Rightarrow> string" where
  \<comment> \<open>\<open>strings.TrimSuffix(s, p)\<close>\<close>
  "trimSuffix s p = (if hasSuffix s p then take (length s - length p) s else s)"

definition isSpace :: "char \<Rightarrow> bool" where
  \<comment> \<open>the ASCII white space that \<open>strings.TrimSpace\<close> removes\<close>
  "isSpace c = (c = CHR '' '' \<or> c = CHR 0x09 \<or> c = CHR 0x0A \<or> c = CHR 0x0B
                \<or> c = CHR 0x0C \<or> c = CHR 0x0D)"

definition trimSpace :: "string \<Rightarrow> string" where
  "trimSpace s = rev (dropWhile isSpace (rev (dropWhile isSpace s)))"

text \<open>
  \<open>strings.Split(s, sep)\<close> for a non-empty separator: the pieces between the
  non-overlapping occurrences of \<open>sep\<close>, found from the left. The accumulator holds the
  current piece reversed.
\<close>

function splitAcc :: "string \<Rightarrow> string \<Rightarrow> string \<Rightarrow> string list" where
  "splitAcc sep cur [] = [rev cur]"
| "splitAcc sep cur (c # cs) =
     (if sep \<noteq> [] \<and> prefix sep (c # cs)
      then rev cur # splitAcc sep [] (drop (length sep) (c # cs))
      else splitAcc sep (c # cur) cs)"
  by pat_completeness auto
termination
  by (relation "measure (\<lambda>(sep, cur, s). length s)") auto

definition split :: "string \<Rightarrow> string \<Rightarrow> string list" where
  "split s sep = splitAcc sep [] s"

fun joinWith :: "string \<Rightarrow> string list \<Rightarrow> string" where
  "joinWith sep [] = []"
| "joinWith sep [x] = x"
| "joinWith sep (x # y # ys) = x @ sep @ joinWith sep (y # ys)"

definition isAbs :: "string \<Rightarrow> bool" where
  \<comment> \<open>\<open>filepath.IsAbs\<close> on a Unix system\<close>
  "isAbs p = hasPrefix p ''/''"

text \<open>
  \<open>filepath.Clean\<close>, lexically: empty and \<open>.\<close> elements are dropped, an inner \<open>..\<close>
  removes the element before it, a \<open>..\<close> at the start of a rooted path is dropped. The
  stack \<open>out\<close> holds the elements kept so far, last one first.
\<close>

fun cleanSegs :: "bool \<Rightarrow> string list \<Rightarrow> string list \<Rightarrow> string list" where
  "cleanSegs rooted out [] = rev out"
| "cleanSegs rooted out (s # ss) =
     (if s = [] \<or> s = ''.'' then cleanSegs rooted out ss
      else if s = ''..'' then
        (case out of
           [] \<Rightarrow> if rooted then cleanSegs rooted out ss else cleanSegs rooted [s] ss
         | t # ts \<Rightarrow> if t = ''..'' then cleanSegs rooted (s # out) ss
                    else cleanSegs rooted ts ss)
      else cleanSegs rooted (s # out) ss)"

definition clean :: "string \<Rightarrow> string" where
  "clean p =
     (let rooted = isAbs p; segs = cleanSegs rooted [] (split p ''/'')
      in if rooted then CHR ''/'' # joinWith ''/'' segs
         else if segs = [] then ''.'' else joinWith ''/'' segs)"

definition pathJoin :: "string \<Rightarrow> string \<Rightarrow> string" where
  \<comment> \<open>\<open>filepath.Join(a, b)\<close> for a non-empty \<open>a\<close>\<close>
  "pathJoin a b = clean (a @ ''/'' @ b)"

definition pathBase :: "string \<Rightarrow> string" where
  \<comment> \<open>\<open>filepath.Base\<close>: the last element of the path\<close>
  "pathBase p =
     (if p = [] then ''.''
      else case filter (\<lambda>s. s \<noteq> []) (split p ''/'') of
             [] \<Rightarrow> ''/''
           | ss \<Rightarrow> last ss)"

definition pathAbs :: "string \<Rightarrow> string \<Rightarrow> string" where
  \<comment> \<open>\<open>filepath.Abs(p)\<close> in the working directory \<open>cwd\<close>\<close>
  "pathAbs cwd p = (if isAbs p then clean p else pathJoin cwd p)"

section \<open>The filesystem\<close>

text \<open>
  The filesystem is one tree of nodes. A file carries its permission bits, its
  modification time and its content. A symbolic link carries the permission bits and the
  modification time that \<open>lstat\<close> reports for the link itself, its target string, and what
  following the link finds (nothing, a file with its permission bits, modification time and
  content, or a directory with its modification time). A directory carries its modification
  time and its entries.
\<close>

datatype link_to = Dangling | ToFile nat int string | ToDir int

datatype node =
    File nat int string
  | Symlink nat int string link_to
  | Directory int "(string \<times> node) list"

fun lookupEntry :: "(string \<times> node) list \<Rightarrow> string \<Rightarrow> node option" where
  "lookupEntry [] n = None"
| "lookupEntry ((m, x) # es) n = (if m = n then Some x else lookupEntry es n)"

fun walkPath :: "node \<Rightarrow> string list \<Rightarrow> node option" where
  "walkPath x [] = Some x"
| "walkPath (Directory t es) (s # ss) =
     (case lookupEntry es s of None \<Rightarrow> None | Some y \<Rightarrow> walkPath y ss)"
| "walkPath (File p t c) (s # ss) = None"
| "walkPath (Symlink p t tg l) (s # ss) = None"

definition lstat :: "node \<Rightarrow> string \<Rightarrow> node option" where
  \<comment> \<open>\<open>os.Lstat\<close> of an absolute path: the node there, a link not followed\<close>
  "lstat root p = walkPath root (filter (\<lambda>s. s \<noteq> []) (split p ''/''))"

text \<open>
  \<open>os.FileInfo\<close>: whether the entry is a directory, whether its mode has
  \<open>os.ModeSymlink\<close>, its permission bits and its modification time.
\<close>

datatype file_info =
  FileInfo (isDir: bool) (modeSymlink: bool) (modePerm: nat) (modTime: int)

fun lstatInfo :: "node \<Rightarrow> file_info" where
  \<comment> \<open>what \<open>lstat\<close> (and \<open>DirEntry.Info\<close>) reports for a node\<close>
  "lstatInfo (File pm t c) = FileInfo False False pm t"
| "lstatInfo (Symlink pm t tg l) = FileInfo False True pm t"
| "lstatInfo (Directory t es) = FileInfo True False 493 t"

fun statNode :: "node \<Rightarrow> file_info option" where
  \<comment> \<open>what \<open>os.Stat\<close> reports: a link is followed, so the mode never has
      \<open>os.ModeSymlink\<close>; a dangling link does not exist\<close>
  "statNode (File pm t c) = Some (FileInfo False False pm t)"
| "statNode (Directory t es) = Some (FileInfo True False 493 t)"
| "statNode (Symlink pm t tg Dangling) = None"
| "statNode (Symlink pm t tg (ToFile pm' t' c)) = Some (FileInfo False False pm' t')"
| "statNode (Symlink pm t tg (ToDir t')) = Some (FileInfo True False 493 t')"

definition stat :: "node \<Rightarrow> string \<Rightarrow> file_info option" where
  "stat root p = (case lstat root p of None \<Rightarrow> None | Some x \<Rightarrow> statNode x)"

datatype file_read = NotExist | Unreadable | Content string

fun readFileNode :: "node \<Rightarrow> file_read" where
  \<comment> \<open>\<open>os.ReadFile\<close>: a link is followed; a directory cannot be read\<close>
  "readFileNode (File pm t c) = Content c"
| "readFileNode (Directory t es) = Unreadable"
| "readFileNode (Symlink pm t tg Dangling) = NotExist"
| "readFileNode (Symlink pm t tg (ToFile pm' t' c)) = Content c"
| "readFileNode (Symlink pm t tg (ToDir t')) = Unreadable"

definition readFile :: "node \<Rightarrow> string \<Rightarrow> file_read" where
  "readFile root p = (case lstat root p of None \<Rightarrow> NotExist | Some x \<Rightarrow> readFileNode x)"

definition readDir :: "(string \<times> node) list \<Rightarrow> (string \<times> node) list" where
  \<comment> \<open>\<open>os.ReadDir\<close> returns the entries sorted by file name\<close>
  "readDir es = sort_key fst es"

section \<open>Errors\<close>

datatype error =
    NotInWmemRepo
  | ReadWorkdirPathsFailed
  | NoWorkdirsConfigured
  | AbsolutePathsNotAllowed
  | WmemRepoPathsNotAllowed
  | MustStartWithDotDot
  | PathTraversalNotAllowed
  | WorkdirPathNotAccessible
  | WorkdirPathNotADirectory
  | WorkdirNotAGitRepository
  | ReadWorkdirMapFailed
  | GenerateWmemUidFailed
  | ReadMsgPrefixFailed
  | ReadAuthorFailed
  | ReadCommitterFailed
  | InvalidSignatureFormat
  | WorkdirNotInMap
  | OpenWorkdirRepoFailed
  | WorkdirHeadFailed
  | OpenBareRepoFailed
  | CreateBareRepoFailed
  | WmemBranchRefMissing
  | RemoteNotFound
  | FetchFailed
  | CommitObjectMissing
  | TreeObjectMissing
  | NoMergeCommitFound
  | ReadDirFailed
  | ReadGitignoreFailed
  | NestedRepoFailed
  | ReadFileFailed
  | WalkDirFailed
  | OpenWmemRepoFailed

section \<open>Workdir path validation (internal/workdir.go)\<close>

text \<open>
  The loop of \<open>validateWorkdirPath\<close> over the segments of the path: \<open>found\<close> is the flag
  \<open>foundNonDotDot\<close>; the result is True when the loop returns the traversal error.
\<close>

fun traversalLoop :: "bool \<Rightarrow> string list \<Rightarrow> bool" where
  "traversalLoop found [] = False"
| "traversalLoop found (segment # segments) =
     (if segment = ''..'' then (if found then True else traversalLoop found segments)
      else if segment \<noteq> [] then traversalLoop True segments
      else traversalLoop found segments)"

definition validateWorkdirPath :: "node \<Rightarrow> string \<Rightarrow> string \<Rightarrow> error + unit" where
  "validateWorkdirPath root cwd workdirPath =
     (if isAbs workdirPath then Inl AbsolutePathsNotAllowed
      else if workdirPath = ''.'' \<or> hasPrefix workdirPath ''./'' then Inl WmemRepoPathsNotAllowed
      else if \<not> hasPrefix workdirPath ''../'' then Inl MustStartWithDotDot
      else if traversalLoop False (split workdirPath ''/'') then Inl PathTraversalNotAllowed
      else
        let absPath = pathAbs cwd workdirPath in
        case stat root absPath of
          None \<Rightarrow> Inl WorkdirPathNotAccessible
        | Some info \<Rightarrow>
            if \<not> isDir info then Inl WorkdirPathNotADirectory
            else if stat root (pathJoin absPath ''.git'') = None then Inl WorkdirNotAGitRepository
            else if hasPrefix absPath cwd then Inl WmemRepoPathsNotAllowed
            else Inr ())"

section \<open>Git objects and repositories\<close>

text \<open>
  A Git object is identified by the SHA-1 of its encoding. The model takes the hash to be
  free of collisions and identifies a hash with the object it names: two hashes are equal
  exactly when the encoded objects are. A blob is its content, a tree is its list of
  entries (name, mode, hash), a commit is its tree, parents, author, committer and message.
\<close>

datatype filemode = Regular | Executable | SymlinkMode | Dir | Submodule
  \<comment> \<open>100644, 100755, 120000, 40000 and 160000\<close>

datatype signature = Signature (sigName: string) (sigEmail: string) (sigWhen: int)

datatype hash =
    BlobObj string
  | TreeObj "(string \<times> filemode \<times> hash) list"
  | CommitObj hash "hash list" signature signature string

type_synonym tree_entry = "string \<times> filemode \<times> hash"

fun Name :: "tree_entry \<Rightarrow> string" where "Name (n, m, h) = n"
fun Mode :: "tree_entry \<Rightarrow> filemode" where "Mode (n, m, h) = m"
fun Hash :: "tree_entry \<Rightarrow> hash" where "Hash (n, m, h) = h"

fun TreeHash :: "hash \<Rightarrow> hash" where
  "TreeHash (CommitObj t ps a c m) = t"
| "TreeHash h = h"

fun ParentHashes :: "hash \<Rightarrow> hash list" where
  "ParentHashes (CommitObj t ps a c m) = ps"
| "ParentHashes h = []"

fun commitMessage :: "hash \<Rightarrow> string" where
  "commitMessage (CommitObj t ps a c m) = m"
| "commitMessage h = []"

fun CommitterWhen :: "hash \<Rightarrow> int" where
  "CommitterWhen (CommitObj t ps a c m) = sigWhen c"
| "CommitterWhen h = 0"

fun isCommit :: "hash \<Rightarrow> bool" where
  "isCommit (CommitObj t ps a c m) = True"
| "isCommit h = False"

text \<open>
  An object store is the set of the objects written to it. A tree in the store stands for
  the tree together with the blobs and subtrees below it, a commit for the commit together
  with its tree: the program writes them before the object that refers to them, and a fetch
  brings them along.
\<close>

definition CommitObject :: "hash set \<Rightarrow> hash \<Rightarrow> hash option" where
  \<comment> \<open>\<open>repo.CommitObject(h)\<close>\<close>
  "CommitObject store h = (if h \<in> store \<and> isCommit h then Some h else None)"

definition TreeObject :: "hash set \<Rightarrow> hash \<Rightarrow> tree_entry list option" where
  \<comment> \<open>\<open>repo.TreeObject(h)\<close>, for the tree of a commit of the store or a tree written to it\<close>
  "TreeObject store h =
     (case h of
        TreeObj es \<Rightarrow> if h \<in> store \<or> (\<exists>c \<in> store. TreeHash c = h) then Some es else None
      | _ \<Rightarrow> None)"

text \<open>
  \<open>tree.Files()\<close>: every entry below the tree that is neither a directory nor a
  submodule, with its full path, in the order of the tree walk.
\<close>

fun treeFiles :: "string \<Rightarrow> hash \<Rightarrow> tree_entry list" where
  "treeFiles pre (TreeObj es) =
     concat (map (\<lambda>(n, m, h).
                    if m = Dir then treeFiles (pre @ n @ ''/'') h
                    else if m = Submodule then []
                    else [(pre @ n, m, h)]) es)"
| "treeFiles pre (BlobObj c) = []"
| "treeFiles pre (CommitObj t ps a c m) = []"

text \<open>
  \<open>commit.IsAncestor(other)\<close>: the commit is reachable from \<open>other\<close> along parents.
\<close>

fun IsAncestor :: "hash \<Rightarrow> hash \<Rightarrow> bool" where
  "IsAncestor c (CommitObj t ps a cm m) =
     (c = CommitObj t ps a cm m \<or> (\<exists>p \<in> set ps. IsAncestor c p))"
| "IsAncestor c (BlobObj b) = False"
| "IsAncestor c (TreeObj es) = False"

fun history :: "hash \<Rightarrow> hash list" where
  \<comment> \<open>the commits reachable from a commit, itself first\<close>
  "history (CommitObj t ps a cm m) = CommitObj t ps a cm m # concat (map history ps)"
| "history (BlobObj b) = []"
| "history (TreeObj es) = []"

text \<open>
  A bare store \<open>repos/<name>.git\<close>: its objects, its references (full names such as
  \<open>refs/heads/wmem-br/main\<close>), the target of its symbolic \<open>HEAD\<close>, and its remotes.
  The remote-tracking references that a fetch writes are left out: the program never reads
  them.
\<close>

record repo =
  objects :: "hash set"
  refs :: "string \<rightharpoonup> hash"
  symHEAD :: string
  remotes :: "(string \<times> string) list"

text \<open>
  The Git repository of a workdir, as the program reads it through go-git: the branch
  name and commit of \<open>HEAD\<close> (none when \<open>Head()\<close> fails, as in a repository without
  commits), the objects it holds, and whether \<open>Worktree.Status()\<close> is clean.
\<close>

record wd_repo =
  wdHead :: "(string \<times> hash) option"
  wdObjects :: "hash set"
  wdClean :: bool

section \<open>Building trees (Tree Builder)\<close>

fun alistUpdate :: "'k \<Rightarrow> 'v \<Rightarrow> ('k \<times> 'v) list \<Rightarrow> ('k \<times> 'v) list" where
  \<comment> \<open>\<open>m[k] = v\<close> on a Go map kept as an association list\<close>
  "alistUpdate k v [] = [(k, v)]"
| "alistUpdate k v ((k', v') # xs) =
     (if k' = k then (k, v) # xs else (k', v') # alistUpdate k v xs)"

definition alistDelete :: "'k \<Rightarrow> ('k \<times> 'v) list \<Rightarrow> ('k \<times> 'v) list" where
  \<comment> \<open>\<open>delete(m, k)\<close>\<close>
  "alistDelete k xs = filter (\<lambda>(k', v). k' \<noteq> k) xs"

definition pathSegs :: "string \<Rightarrow> string list" where
  "pathSegs p = filter (\<lambda>s. s \<noteq> []) (split p ''/'')"

definition pathRel :: "string \<Rightarrow> string \<Rightarrow> string" where
  \<comment> \<open>\<open>filepath.Rel(base, p)\<close> for a path \<open>p\<close> at or below \<open>base\<close>\<close>
  "pathRel base p =
     (case drop (length (pathSegs base)) (pathSegs p) of
        [] \<Rightarrow> ''.''
      | ss \<Rightarrow> joinWith ''/'' ss)"

text \<open>
  \<open>findGitRoot\<close>: from the start path upwards, the first directory that has a
  \<open>.git\<close> entry. The argument is the list of the path's elements, last one first; the
  recursive call is the step to the parent directory.
\<close>

fun findGitRootFrom :: "node \<Rightarrow> string list \<Rightarrow> string option" where
  "findGitRootFrom root [] =
     (if stat root (pathJoin ''/'' ''.git'') \<noteq> None then Some ''/'' else None)"
| "findGitRootFrom root (s # rs) =
     (let currentPath = CHR ''/'' # joinWith ''/'' (rev (s # rs))
      in if stat root (pathJoin currentPath ''.git'') \<noteq> None then Some currentPath
         else findGitRootFrom root rs)"

definition findGitRoot :: "node \<Rightarrow> string \<Rightarrow> string option" where
  "findGitRoot root startPath = findGitRootFrom root (rev (pathSegs startPath))"

definition matchesPattern :: "string \<Rightarrow> string \<Rightarrow> bool" where
  \<comment> \<open>the body of the loop of \<open>checkGitignorePatterns\<close> for one line\<close>
  "matchesPattern relPath line0 =
     (let line = trimSpace line0 in
      if line = [] \<or> hasPrefix line ''#'' then False
      else let pattern = trimSuffix line ''/''
           in pattern = relPath \<or> (hasSuffix line ''/'' \<and> hasPrefix relPath (pattern @ ''/'')))"

definition checkGitignorePatterns :: "node \<Rightarrow> string \<Rightarrow> string \<Rightarrow> error + bool" where
  "checkGitignorePatterns root gitRoot relPath =
     (case readFile root (pathJoin gitRoot ''.gitignore'') of
        NotExist \<Rightarrow> Inr False
      | Unreadable \<Rightarrow> Inl ReadGitignoreFailed
      | Content c \<Rightarrow> Inr (list_ex (matchesPattern relPath) (split c [CHR 0x0A])))"

definition isPathIgnored :: "node \<Rightarrow> string \<Rightarrow> string \<Rightarrow> error + bool" where
  "isPathIgnored root dirPath entryName =
     (case findGitRoot root dirPath of
        None \<Rightarrow> Inr False
      | Some gitRoot \<Rightarrow>
          checkGitignorePatterns root gitRoot (pathRel gitRoot (pathJoin dirPath entryName)))"

fun isBrokenSymlink :: "node \<Rightarrow> bool" where
  "isBrokenSymlink (Symlink pm t tg Dangling) = True"
| "isBrokenSymlink x = False"

definition createBlobFromFile :: "node \<Rightarrow> error + hash" where
  \<comment> \<open>the blob holds what \<open>os.ReadFile\<close> returns for the path\<close>
  "createBlobFromFile x =
     (case readFileNode x of Content c \<Rightarrow> Inr (BlobObj c) | _ \<Rightarrow> Inl ReadFileFailed)"

definition modeOf :: "file_info \<Rightarrow> filemode" where
  \<comment> \<open>\<open>filemode.Executable\<close> when \<open>info.Mode()&0111 != 0\<close>, else \<open>filemode.Regular\<close>\<close>
  "modeOf info = (if modePerm info AND 73 \<noteq> 0 then Executable else Regular)"

definition hasGitEntry :: "(string \<times> node) list \<Rightarrow> bool" where
  \<comment> \<open>\<open>os.Stat(filepath.Join(entryPath, ".git"))\<close> succeeds\<close>
  "hasGitEntry sub =
     (case lookupEntry sub ''.git'' of None \<Rightarrow> False | Some g \<Rightarrow> statNode g \<noteq> None)"

definition gitlinkEntry :: "(string \<rightharpoonup> wd_repo) \<Rightarrow> string \<Rightarrow> string \<Rightarrow> error + tree_entry option" where
  "gitlinkEntry git entryPath name =
     (case git entryPath of
        None \<Rightarrow> Inl NestedRepoFailed
      | Some nestedRepo \<Rightarrow>
          (case wdHead nestedRepo of
             None \<Rightarrow> Inl NestedRepoFailed
           | Some (b, h) \<Rightarrow> Inr (Some (name, Submodule, h))))"

definition fileEntry :: "string \<Rightarrow> node \<Rightarrow> error + tree_entry option" where
  \<comment> \<open>the branch of \<open>createTreeFromFilesystem\<close> for an entry that is not a directory\<close>
  "fileEntry name x =
     (if isBrokenSymlink x then Inr None
      else case createBlobFromFile x of
             Inl e \<Rightarrow> Inl e
           | Inr blobHash \<Rightarrow> Inr (Some (name, modeOf (lstatInfo x), blobHash)))"

fun collect :: "(error + 'a option) list \<Rightarrow> error + 'a list" where
  \<comment> \<open>the loop stops at the first error; a skipped entry adds nothing\<close>
  "collect [] = Inr []"
| "collect (Inl e # rs) = Inl e"
| "collect (Inr x # rs) =
     (case collect rs of
        Inl e \<Rightarrow> Inl e
      | Inr xs \<Rightarrow> Inr (case x of None \<Rightarrow> xs | Some y \<Rightarrow> y # xs))"

definition sortKey :: "tree_entry \<Rightarrow> string" where
  \<comment> \<open>go-git's \<open>TreeEntrySorter\<close>: a directory's name is compared with a slash appended\<close>
  "sortKey e = (if Mode e = Dir then Name e @ ''/'' else Name e)"

function (sequential) createTreeFromFilesystem ::
  "node \<Rightarrow> (string \<rightharpoonup> wd_repo) \<Rightarrow> string \<Rightarrow> node \<Rightarrow> error + hash" where
  "createTreeFromFilesystem root git dirPath (Directory t es) =
     (case collect (map (\<lambda>(name, x).
              if name = ''.git'' then Inr None
              else case isPathIgnored root dirPath name of
                Inl e \<Rightarrow> Inl e
              | Inr isIgnored \<Rightarrow>
                  if isIgnored then Inr None
                  else (case x of
                          Directory t' sub \<Rightarrow>
                            if hasGitEntry sub then gitlinkEntry git (pathJoin dirPath name) name
                            else (case createTreeFromFilesystem root git (pathJoin dirPath name) x of
                                    Inl e \<Rightarrow> Inl e
                                  | Inr subTreeHash \<Rightarrow> Inr (Some (name, Dir, subTreeHash)))
                        | _ \<Rightarrow> fileEntry name x))
            (readDir es)) of
        Inl e \<Rightarrow> Inl e
      | Inr treeEntries \<Rightarrow> Inr (TreeObj (sort_key sortKey treeEntries)))"
| "createTreeFromFilesystem root git dirPath (File pm t c) = Inl ReadDirFailed"
| "createTreeFromFilesystem root git dirPath (Symlink pm t tg l) = Inl ReadDirFailed"
  by pat_completeness auto
termination
proof (relation "measure (\<lambda>(root, git, dirPath, x). size x)", goal_cases)
  case 1
  show ?case by simp
next
  case (2 root git dirPath t es p name x isIgnored t' sub)
  then have "(name, x) \<in> set es"
    by (simp add: readDir_def)
  then have "size x < Suc (size_list (size_prod (\<lambda>_. 0) size) es)"
    by (induction es) auto
  then show ?case by simp
qed

definition createTreeFromFilesystemAt ::
  "node \<Rightarrow> (string \<rightharpoonup> wd_repo) \<Rightarrow> string \<Rightarrow> error + hash" where
  \<comment> \<open>the call \<open>createTreeFromFilesystem(repo, dirPath)\<close> for an absolute path\<close>
  "createTreeFromFilesystemAt root git dirPath =
     (case lstat root dirPath of
        None \<Rightarrow> Inl ReadDirFailed
      | Some x \<Rightarrow> createTreeFromFilesystem root git dirPath x)"

text \<open>
  \<open>createTreeFromTouchedFiles\<close>. The Go map \<open>baseEntries\<close> is an association list in
  the order of insertion; Go leaves the order of map iteration and of equal names under
  \<open>sort.Slice\<close> open, the model keeps the order of insertion for them.
\<close>

definition readlink :: "node \<Rightarrow> string \<Rightarrow> string option" where
  "readlink root p =
     (case lstat root p of Some (Symlink pm t tg l) \<Rightarrow> Some tg | _ \<Rightarrow> None)"

fun updateTouched ::
  "node \<Rightarrow> string \<Rightarrow> (string \<times> tree_entry) list \<Rightarrow> string list
     \<Rightarrow> error + (string \<times> tree_entry) list" where
  "updateTouched root dirPath baseEntries [] = Inr baseEntries"
| "updateTouched root dirPath baseEntries (filename # rest) =
     (let filePath = pathJoin dirPath filename in
      case stat root filePath of
        None \<Rightarrow> updateTouched root dirPath (alistDelete filename baseEntries) rest
      | Some fileInfo \<Rightarrow>
          if isDir fileInfo then updateTouched root dirPath baseEntries rest
          else if modeSymlink fileInfo then
            (case readlink root filePath of
               None \<Rightarrow> Inl ReadFileFailed
             | Some target \<Rightarrow>
                 updateTouched root dirPath
                   (alistUpdate filename (pathBase filename, SymlinkMode, BlobObj target) baseEntries)
                   rest)
          else
            (case readFile root filePath of
               Content c \<Rightarrow>
                 updateTouched root dirPath
                   (alistUpdate filename (pathBase filename, modeOf fileInfo, BlobObj c) baseEntries)
                   rest
             | _ \<Rightarrow> Inl ReadFileFailed))"

definition baseEntriesOf :: "hash \<Rightarrow> (string \<times> tree_entry) list" where
  "baseEntriesOf baseTreeHash =
     fold (\<lambda>(n, m, h) acc. alistUpdate n (pathBase n, m, h) acc) (treeFiles [] baseTreeHash) []"

definition createTreeFromTouchedFiles ::
  "hash set \<Rightarrow> node \<Rightarrow> string \<Rightarrow> string list \<Rightarrow> hash \<Rightarrow> error + hash" where
  "createTreeFromTouchedFiles store root dirPath touchedFiles baseTreeHash =
     (case TreeObject store baseTreeHash of
        None \<Rightarrow> Inl TreeObjectMissing
      | Some es \<Rightarrow>
          (case updateTouched root dirPath (baseEntriesOf baseTreeHash) touchedFiles of
             Inl e \<Rightarrow> Inl e
           | Inr entries \<Rightarrow> Inr (TreeObj (sort_key Name (map snd entries)))))"

section \<open>The state of the world\<close>

text \<open>
  The tracked files of the meta-repository that the program reads or writes: the path list,
  the message prefix, the author and committer files, the workdir map (the JSON object as an
  association list; none when the file is missing or does not parse), and the checkpoint
  files under \<open>cache/\<close> (file name and stored modification time). The directory
  \<open>repos/\<close> is ignored by the meta-repository's \<open>.gitignore\<close>; \<open>cache/\<close> is not.
\<close>

record meta_tree =
  pathsFile :: file_read
  msgPrefixFile :: file_read
  authorFile :: file_read
  committerFile :: file_read
  workdirMapFile :: "(string \<times> string) list option"
  cacheFiles :: "(string \<times> int) list"

datatype meta_commit = MetaCommit string signature signature

text \<open>
  The in-memory caches of \<open>globalCommitCache\<close>. A cache key \<open>a:b\<close> is the pair
  \<open>(a, b)\<close>; a SHA-1 string is the hash.
\<close>

record commit_cache =
  touchedFilesCache :: "string \<rightharpoonup> (hash \<times> hash \<times> string list)"
  treeHashCache :: "string \<rightharpoonup> (hash \<times> string list \<times> hash)"
  directoryStateCache :: "(string \<times> hash) \<rightharpoonup> int"
  fileListCache :: "(string \<times> hash) \<rightharpoonup> (hash \<times> string list)"
  wmemTreeCache :: "(string \<times> string) \<rightharpoonup> (hash \<times> string list)"

definition emptyCache :: commit_cache where
  "emptyCache = \<lparr> touchedFilesCache = Map.empty, treeHashCache = Map.empty,
                   directoryStateCache = Map.empty, fileListCache = Map.empty,
                   wmemTreeCache = Map.empty \<rparr>"

text \<open>
  Everything one invocation can read or change. The filesystem outside the
  meta-repository (\<open>fsRoot\<close>) and the workdirs' own repositories (\<open>wdGit\<close>, by absolute
  path) are only read. The clock (\<open>now\<close>, in seconds; \<open>uidDate\<close> and \<open>uidTime\<close> are its
  \<open>YYMMDD\<close> and \<open>HHMMSS\<close> renderings) and the bytes that \<open>rand.Read\<close> delivers are
  inputs. \<open>hashString\<close> is the hexadecimal form of a hash. The meta-repository is the
  current directory \<open>currentDir\<close>: its marker file, its working tree, the tree of its \<open>HEAD\<close>
  commit and its commits, newest first. The bare stores are kept by workdir name.
\<close>

record world =
  fsRoot :: node
  wdGit :: "string \<rightharpoonup> wd_repo"
  currentDir :: string
  now :: int
  uidDate :: string
  uidTime :: string
  randomBytes :: "nat list"
  hashString :: "hash \<Rightarrow> string"
  hasMarker :: bool
  metaTree :: meta_tree
  metaHead :: meta_tree
  metaLog :: "meta_commit list"
  repos :: "string \<rightharpoonup> repo"
  cache :: commit_cache

record CommitInfo =
  WmemUID :: string
  Message :: string
  Author :: string
  Committer :: string

record WorkdirCommitResult =
  WorkdirName :: string
  BranchName :: string
  CommitHash :: string
  HasChanges :: bool

record workdirCheckResult =
  crWorkdirPath :: string
  crWorkdirName :: string
  crCurrentBranchName :: string
  crHasModifiedFiles :: bool
  crError :: "error option"

definition wmemBranchRef :: "string \<Rightarrow> string" where
  \<comment> \<open>\<open>refs/heads/wmem-br/<current-branch-name>\<close>\<close>
  "wmemBranchRef currentBranchName = ''refs/heads/wmem-br/'' @ currentBranchName"

definition wmemHeadRef :: string where
  "wmemHeadRef = ''refs/heads/wmem-br/head''"

definition setRepo :: "string \<Rightarrow> repo \<Rightarrow> world \<Rightarrow> world" where
  "setRepo workdirName r w = w\<lparr>repos := (repos w)(workdirName \<mapsto> r)\<rparr>"

definition SetReference :: "string \<Rightarrow> hash \<Rightarrow> repo \<Rightarrow> repo" where
  \<comment> \<open>\<open>repo.Storer.SetReference(plumbing.NewHashReference(name, h))\<close>\<close>
  "SetReference name h r = r\<lparr>refs := (refs r)(name \<mapsto> h)\<rparr>"

definition SetEncodedObject :: "hash \<Rightarrow> repo \<Rightarrow> repo" where
  "SetEncodedObject h r = r\<lparr>objects := insert h (objects r)\<rparr>"

definition PlainOpenWorkdir :: "world \<Rightarrow> string \<Rightarrow> wd_repo option" where
  \<comment> \<open>\<open>git.PlainOpen\<close> of a workdir path, relative to the current directory or absolute\<close>
  "PlainOpenWorkdir w workdirPath = wdGit w (pathAbs (currentDir w) workdirPath)"

section \<open>Configuration and names (internal/workdir.go)\<close>

definition readWorkdirPaths :: "world \<Rightarrow> error + string list" where
  "readWorkdirPaths w =
     (case pathsFile (metaTree w) of
        NotExist \<Rightarrow> Inr []
      | Unreadable \<Rightarrow> Inl ReadWorkdirPathsFailed
      | Content content \<Rightarrow>
          Inr (filter (\<lambda>line. line \<noteq> [])
                 (map trimSpace (split (trimSpace content) [CHR 0x0A]))))"

fun FindWorkdirName :: "string \<Rightarrow> (string \<times> string) list \<Rightarrow> string option" where
  "FindWorkdirName workdirPath [] = None"
| "FindWorkdirName workdirPath ((name, path) # workdirMap) =
     (if clean path = clean workdirPath then Some name
      else FindWorkdirName workdirPath workdirMap)"

definition digitChar :: "nat \<Rightarrow> char" where
  "digitChar d = ''0123456789'' ! (d mod 10)"

function showNat :: "nat \<Rightarrow> string" where
  "showNat n = (if n < 10 then [digitChar n] else showNat (n div 10) @ [digitChar n])"
  by pat_completeness auto
termination
  by (relation "measure id") auto

text \<open>
  \<open>generateWorkdirName\<close>: the base name, or the first of \<open>base-2\<close>, \<open>base-3\<close>, ... that
  is not a key of the map. Among as many candidates as the map has entries plus one, one is
  free, so the search of the source ends within them.
\<close>

definition generateWorkdirName :: "string \<Rightarrow> (string \<times> string) list \<Rightarrow> string" where
  "generateWorkdirName workdirPath existingMap =
     (let baseName = pathBase workdirPath in
      if map_of existingMap baseName = None then baseName
      else case find (\<lambda>candidate. map_of existingMap candidate = None)
                  (map (\<lambda>counter. baseName @ ''-'' @ showNat counter)
                       [2 ..< length existingMap + 3]) of
             Some candidate \<Rightarrow> candidate
           | None \<Rightarrow> baseName)"

definition readWorkdirMap :: "world \<Rightarrow> error + (string \<times> string) list" where
  "readWorkdirMap w =
     (case workdirMapFile (metaTree w) of
        None \<Rightarrow> Inl ReadWorkdirMapFailed
      | Some workdirMap \<Rightarrow> Inr workdirMap)"

definition saveWorkdirMap :: "(string \<times> string) list \<Rightarrow> world \<Rightarrow> world" where
  \<comment> \<open>\<open>json.MarshalIndent\<close> writes the keys in sorted order\<close>
  "saveWorkdirMap workdirMap w =
     w\<lparr>metaTree := (metaTree w)\<lparr>workdirMapFile := Some (sort_key fst workdirMap)\<rparr>\<rparr>"

definition getCurrentBranchName :: "world \<Rightarrow> string \<Rightarrow> error + string" where
  "getCurrentBranchName w workdirPath =
     (case PlainOpenWorkdir w workdirPath of
        None \<Rightarrow> Inl OpenWorkdirRepoFailed
      | Some workdirRepo \<Rightarrow>
          (case wdHead workdirRepo of
             None \<Rightarrow> Inl WorkdirHeadFailed
           | Some (branch, h) \<Rightarrow> Inr branch))"

definition getCurrentHeadSHA1 :: "world \<Rightarrow> string \<Rightarrow> error + hash" where
  "getCurrentHeadSHA1 w workdirPath =
     (case PlainOpenWorkdir w workdirPath of
        None \<Rightarrow> Inl OpenWorkdirRepoFailed
      | Some workdirRepo \<Rightarrow>
          (case wdHead workdirRepo of
             None \<Rightarrow> Inl WorkdirHeadFailed
           | Some (branch, h) \<Rightarrow> Inr h))"

section \<open>Bare stores (the repository operations of the second internal file)\<close>

definition isWmemRepo :: "world \<Rightarrow> bool" where
  "isWmemRepo w = hasMarker w"

definition Fetch :: "world \<Rightarrow> repo \<Rightarrow> error + repo" where
  \<comment> \<open>\<open>repo.Remote("wmem-wd")\<close> and \<open>remote.Fetch\<close>: the objects of the remote
      repository arrive in the store; "already up to date" is no error; a remote without
      commits is one\<close>
  "Fetch w r =
     (case map_of (remotes r) ''wmem-wd'' of
        None \<Rightarrow> Inl RemoteNotFound
      | Some url \<Rightarrow>
          (case wdGit w url of
             None \<Rightarrow> Inl FetchFailed
           | Some workdirRepo \<Rightarrow>
               (case wdHead workdirRepo of
                  None \<Rightarrow> Inl FetchFailed
                | Some head \<Rightarrow> Inr (r\<lparr>objects := objects r \<union> wdObjects workdirRepo\<rparr>))))"

definition createWmemBranch :: "world \<Rightarrow> string \<Rightarrow> repo \<Rightarrow> error + repo" where
  "createWmemBranch w workdirPath r =
     (case PlainOpenWorkdir w workdirPath of
        None \<Rightarrow> Inl OpenWorkdirRepoFailed
      | Some workdirRepo \<Rightarrow>
          (case wdHead workdirRepo of
             None \<Rightarrow> Inl WorkdirHeadFailed
           | Some (branchName, h) \<Rightarrow> Inr (SetReference (wmemBranchRef branchName) h r)))"

definition createBareRepo :: "string \<Rightarrow> string \<Rightarrow> world \<Rightarrow> (error + unit) \<times> world" where
  "createBareRepo workdirName workdirPath w =
     (case repos w workdirName of
        Some existing \<Rightarrow> (Inl CreateBareRepoFailed, w)
      | None \<Rightarrow>
          (let absWorkdirPath = pathAbs (currentDir w) workdirPath;
               r0 = \<lparr> objects = {}, refs = Map.empty, symHEAD = ''refs/heads/master'',
                      remotes = [(''wmem-wd'', absWorkdirPath)] \<rparr>
           in (case Fetch w r0 of
                 Inl e \<Rightarrow> (Inl e, setRepo workdirName r0 w)
               | Inr r1 \<Rightarrow>
                   (case createWmemBranch w absWorkdirPath r1 of
                      Inl e \<Rightarrow> (Inl e, setRepo workdirName r1 w)
                    | Inr r2 \<Rightarrow> (Inr (), setRepo workdirName r2 w)))))"

text \<open>
  \<open>initRepos\<close>: the loop carries the workdir map; the map is saved only when the loop
  has gone through every path.
\<close>

fun initReposLoop ::
  "string list \<Rightarrow> (string \<times> string) list \<Rightarrow> world
     \<Rightarrow> (error + (string \<times> string) list) \<times> world" where
  "initReposLoop [] workdirMap w = (Inr workdirMap, w)"
| "initReposLoop (workdirPath # rest) workdirMap w =
     (case validateWorkdirPath (fsRoot w) (currentDir w) workdirPath of
        Inl e \<Rightarrow> (Inl e, w)
      | Inr u \<Rightarrow>
          (case FindWorkdirName workdirPath workdirMap of
             Some name \<Rightarrow> initReposLoop rest workdirMap w
           | None \<Rightarrow>
               (let workdirName = generateWorkdirName workdirPath workdirMap in
                (case createBareRepo workdirName workdirPath w of
                   (Inl e, w') \<Rightarrow> (Inl e, w')
                 | (Inr u', w') \<Rightarrow>
                     initReposLoop rest
                       (alistUpdate workdirName (clean workdirPath) workdirMap) w'))))"

definition initRepos :: "string list \<Rightarrow> world \<Rightarrow> (error + unit) \<times> world" where
  "initRepos workdirPaths w =
     (case readWorkdirMap w of
        Inl e \<Rightarrow> (Inl e, w)
      | Inr workdirMap \<Rightarrow>
          (case initReposLoop workdirPaths workdirMap w of
             (Inl e, w') \<Rightarrow> (Inl e, w')
           | (Inr workdirMap', w') \<Rightarrow> (Inr (), saveWorkdirMap workdirMap' w')))"

definition ensureWmemBranchExists ::
  "string \<Rightarrow> string \<Rightarrow> string \<Rightarrow> world \<Rightarrow> (error + unit) \<times> world" where
  "ensureWmemBranchExists workdirName currentBranchName workdirPath w =
     (case repos w workdirName of
        None \<Rightarrow> (Inl OpenBareRepoFailed, w)
      | Some bareRepo \<Rightarrow>
          (case refs bareRepo (wmemBranchRef currentBranchName) of
             Some h \<Rightarrow> (Inr (), w)
           | None \<Rightarrow>
               (case PlainOpenWorkdir w workdirPath of
                  None \<Rightarrow> (Inl OpenWorkdirRepoFailed, w)
                | Some workdirRepo \<Rightarrow>
                    (case wdHead workdirRepo of
                       None \<Rightarrow> (Inl WorkdirHeadFailed, w)
                     | Some (b, h) \<Rightarrow>
                         (Inr (), setRepo workdirName
                                    (SetReference (wmemBranchRef currentBranchName) h bareRepo) w)))))"

definition ensureWmemHeadBranch ::
  "string \<Rightarrow> string \<Rightarrow> world \<Rightarrow> (error + unit) \<times> world" where
  "ensureWmemHeadBranch workdirName currentBranchName w =
     (case repos w workdirName of
        None \<Rightarrow> (Inl OpenBareRepoFailed, w)
      | Some bareRepo \<Rightarrow>
          (case refs bareRepo (wmemBranchRef currentBranchName) of
             None \<Rightarrow> (Inl WmemBranchRefMissing, w)
           | Some wmemBranchHash \<Rightarrow>
               (Inr (), setRepo workdirName
                          (bareRepo\<lparr>symHEAD := wmemBranchRef currentBranchName\<rparr>) w)))"

definition fetchLatestChanges :: "string \<Rightarrow> world \<Rightarrow> (error + unit) \<times> world" where
  "fetchLatestChanges workdirName w =
     (case repos w workdirName of
        None \<Rightarrow> (Inl OpenBareRepoFailed, w)
      | Some bareRepo \<Rightarrow>
          (case Fetch w bareRepo of
             Inl e \<Rightarrow> (Inl e, w)
           | Inr bareRepo' \<Rightarrow> (Inr (), setRepo workdirName bareRepo' w)))"

section \<open>Signatures, merge commits and snapshot commits\<close>

definition parseSignature :: "int \<Rightarrow> string \<Rightarrow> error + signature" where
  \<comment> \<open>the first argument is \<open>time.Now()\<close>\<close>
  "parseSignature t sigStr =
     (case split sigStr '' <'' of
        [name, rest] \<Rightarrow> Inr (Signature name (trimSuffix rest ''>'') t)
      | _ \<Rightarrow> Inl InvalidSignatureFormat)"

definition parseCommitSignatures ::
  "int \<Rightarrow> CommitInfo \<Rightarrow> error + (signature \<times> signature)" where
  "parseCommitSignatures t commitInfo =
     (case parseSignature t (Author commitInfo) of
        Inl e \<Rightarrow> Inl e
      | Inr authorSig \<Rightarrow>
          (case parseSignature t (Committer commitInfo) of
             Inl e \<Rightarrow> Inl e
           | Inr committerSig \<Rightarrow> Inr (authorSig, committerSig)))"

definition isCommitMerged :: "repo \<Rightarrow> hash \<Rightarrow> hash \<Rightarrow> error + bool" where
  "isCommitMerged r commitHash targetHash =
     (if commitHash = targetHash then Inr True
      else case CommitObject (objects r) targetHash of
        None \<Rightarrow> Inl CommitObjectMissing
      | Some targetCommit \<Rightarrow>
          (case CommitObject (objects r) commitHash of
             None \<Rightarrow> Inl CommitObjectMissing
           | Some commitToCheck \<Rightarrow> Inr (IsAncestor commitToCheck targetCommit)))"

definition mergeMessage :: "string \<Rightarrow> CommitInfo \<Rightarrow> string" where
  \<comment> \<open>\<open>CHR 0x27\<close> is the single quote, \<open>CHR 0x0A\<close> the newline\<close>
  "mergeMessage currentBranchName commitInfo =
     ''Merge workdir '' @ [CHR 0x27] @ currentBranchName @ [CHR 0x27] @ '' into ''
       @ [CHR 0x27] @ ''wmem-br/'' @ currentBranchName @ [CHR 0x27]
       @ '' accepting workdir'' @ [CHR 0x27] @ ''s branch tree hash'' @ [CHR 0x0A, CHR 0x0A]
       @ Message commitInfo"

definition createWmemMergeCommit ::
  "repo \<Rightarrow> hash \<Rightarrow> hash \<Rightarrow> string \<Rightarrow> CommitInfo \<Rightarrow> signature \<Rightarrow> signature
     \<Rightarrow> error + (hash \<times> repo)" where
  "createWmemMergeCommit r wmemBranchHash workdirCommitHash currentBranchName commitInfo
       author committer =
     (case CommitObject (objects r) workdirCommitHash of
        None \<Rightarrow> Inl CommitObjectMissing
      | Some workdirCommit \<Rightarrow>
          let mergeCommit =
                CommitObj (TreeHash workdirCommit) [wmemBranchHash, workdirCommitHash]
                  author committer (mergeMessage currentBranchName commitInfo)
          in Inr (mergeCommit, SetEncodedObject mergeCommit r))"

definition ensureWorkdirCommitMerged ::
  "string \<Rightarrow> string \<Rightarrow> string \<Rightarrow> CommitInfo \<Rightarrow> world \<Rightarrow> (error + bool) \<times> world" where
  "ensureWorkdirCommitMerged workdirPath workdirName currentBranchName commitInfo w =
     (case PlainOpenWorkdir w workdirPath of
        None \<Rightarrow> (Inl OpenWorkdirRepoFailed, w)
      | Some workdirRepo \<Rightarrow>
      (case wdHead workdirRepo of
        None \<Rightarrow> (Inl WorkdirHeadFailed, w)
      | Some (b, head) \<Rightarrow>
      (case repos w workdirName of
        None \<Rightarrow> (Inl OpenBareRepoFailed, w)
      | Some bareRepo \<Rightarrow>
      (case refs bareRepo (wmemBranchRef currentBranchName) of
        None \<Rightarrow> (Inl WmemBranchRefMissing, w)
      | Some wmemBranchHash \<Rightarrow>
      (case isCommitMerged bareRepo head wmemBranchHash of
        Inl e \<Rightarrow> (Inl e, w)
      | Inr isAlreadyMerged \<Rightarrow>
          if isAlreadyMerged then (Inr isAlreadyMerged, w)
          else
            (case parseCommitSignatures (now w) commitInfo of
               Inl e \<Rightarrow> (Inl e, w)
             | Inr (authorSig, committerSig) \<Rightarrow>
                 (case createWmemMergeCommit bareRepo wmemBranchHash head currentBranchName
                         commitInfo authorSig committerSig of
                    Inl e \<Rightarrow> (Inl e, w)
                  | Inr (newCommitHash, bareRepo') \<Rightarrow>
                      (Inr isAlreadyMerged,
                       setRepo workdirName
                         (SetReference wmemHeadRef newCommitHash
                            (SetReference (wmemBranchRef currentBranchName) newCommitHash
                               bareRepo')) w))))))))"

section \<open>Change detection (Change Detector)\<close>

definition getLastWmemCommitTime :: "world \<Rightarrow> string \<Rightarrow> string \<Rightarrow> error + int" where
  "getLastWmemCommitTime w workdirName currentBranchName =
     (case repos w workdirName of
        None \<Rightarrow> Inl OpenBareRepoFailed
      | Some bareRepo \<Rightarrow>
          (case refs bareRepo (wmemBranchRef currentBranchName) of
             None \<Rightarrow> Inl WmemBranchRefMissing
           | Some h \<Rightarrow>
               (case CommitObject (objects bareRepo) h of
                  None \<Rightarrow> Inl CommitObjectMissing
                | Some wmemCommit \<Rightarrow> Inr (CommitterWhen wmemCommit))))"

text \<open>
  \<open>filepath.WalkDir\<close> as both walks of the program use it: the entries that are not
  directories, in lexical order, with their path relative to the start and what \<open>lstat\<close>
  reports; a directory named \<open>.git\<close> is skipped with everything below it.
\<close>

function (sequential) walkDir :: "string \<Rightarrow> string \<Rightarrow> node \<Rightarrow> (string \<times> file_info) list" where
  "walkDir name rel (Directory t es) =
     (if name = ''.git'' then []
      else concat (map (\<lambda>(n, x). walkDir n (if rel = [] then n else rel @ ''/'' @ n) x)
                       (readDir es)))"
| "walkDir name rel x = [(if rel = [] then ''.'' else rel, lstatInfo x)]"
  by pat_completeness auto
termination
proof (relation "measure (\<lambda>(name, rel, x). size x)", goal_cases)
  case 1
  show ?case by simp
next
  case (2 name rel t es p n x)
  then have "(n, x) \<in> set es"
    by (simp add: readDir_def)
  then have "size x < Suc (size_list (size_prod (\<lambda>_. 0) size) es)"
    by (induction es) auto
  then show ?case by simp
qed

definition hasFilesNewerThan :: "world \<Rightarrow> string \<Rightarrow> int \<Rightarrow> error + bool" where
  \<comment> \<open>\<open>info.ModTime().After(since.Add(-1 * time.Second))\<close>, times in seconds\<close>
  "hasFilesNewerThan w dirPath since =
     (case lstat (fsRoot w) (pathAbs (currentDir w) dirPath) of
        None \<Rightarrow> Inl WalkDirFailed
      | Some x \<Rightarrow>
          Inr (list_ex (\<lambda>(p, info). modTime info > since - 1) (walkDir (pathBase dirPath) [] x)))"

definition getFileListInDirectory :: "world \<Rightarrow> string \<Rightarrow> error + string list" where
  "getFileListInDirectory w dirPath =
     (case lstat (fsRoot w) (pathAbs (currentDir w) dirPath) of
        None \<Rightarrow> Inl WalkDirFailed
      | Some x \<Rightarrow> Inr (map fst (walkDir (pathBase dirPath) [] x)))"

definition getTrackedFilesFromWmemTree ::
  "string \<Rightarrow> string \<Rightarrow> world \<Rightarrow> (error + string list) \<times> world" where
  "getTrackedFilesFromWmemTree workdirName currentBranchName w =
     (case repos w workdirName of
        None \<Rightarrow> (Inl OpenBareRepoFailed, w)
      | Some bareRepo \<Rightarrow>
      (case refs bareRepo (wmemBranchRef currentBranchName) of
        None \<Rightarrow> (Inl WmemBranchRefMissing, w)
      | Some currentCommitHash \<Rightarrow>
          let cacheKey = (workdirName, currentBranchName) in
          (case wmemTreeCache (cache w) cacheKey of
             Some (commitHash, fileList) \<Rightarrow>
               if commitHash = currentCommitHash then (Inr fileList, w)
               else (case CommitObject (objects bareRepo) currentCommitHash of
                       None \<Rightarrow> (Inl CommitObjectMissing, w)
                     | Some wmemCommit \<Rightarrow>
                         (let files = map Name (treeFiles [] (TreeHash wmemCommit)) in
                          (Inr files,
                           w\<lparr>cache := (cache w)\<lparr>wmemTreeCache :=
                                (wmemTreeCache (cache w))(cacheKey \<mapsto> (currentCommitHash, files))\<rparr>\<rparr>)))
           | None \<Rightarrow>
               (case CommitObject (objects bareRepo) currentCommitHash of
                  None \<Rightarrow> (Inl CommitObjectMissing, w)
                | Some wmemCommit \<Rightarrow>
                    (let files = map Name (treeFiles [] (TreeHash wmemCommit)) in
                     (Inr files,
                      w\<lparr>cache := (cache w)\<lparr>wmemTreeCache :=
                           (wmemTreeCache (cache w))(cacheKey \<mapsto> (currentCommitHash, files))\<rparr>\<rparr>))))))"

definition findWmemRepoRoot :: "world \<Rightarrow> error + string" where
  \<comment> \<open>the search starts in the current directory, which the commit operation has
      already found to hold the marker; directories above it are not modelled\<close>
  "findWmemRepoRoot w = (if hasMarker w then Inr (currentDir w) else Inl NotInWmemRepo)"

definition getCacheFilePath :: "world \<Rightarrow> string \<Rightarrow> error + string" where
  \<comment> \<open>the name of the checkpoint file within \<open>cache/\<close>\<close>
  "getCacheFilePath w workdirPath =
     (case findWmemRepoRoot w of
        Inl e \<Rightarrow> Inl e
      | Inr wmemRoot \<Rightarrow> Inr (''git-wmem-cache-'' @ pathBase workdirPath @ ''.json''))"

definition readLastMtimeFromFile :: "world \<Rightarrow> string \<Rightarrow> int option" where
  "readLastMtimeFromFile w cacheFile = map_of (cacheFiles (metaTree w)) cacheFile"

definition writeLastMtimeToFile :: "string \<Rightarrow> int \<Rightarrow> world \<Rightarrow> world" where
  "writeLastMtimeToFile cacheFile mtime w =
     w\<lparr>metaTree := (metaTree w)\<lparr>cacheFiles :=
          alistUpdate cacheFile mtime (cacheFiles (metaTree w))\<rparr>\<rparr>"

definition hasFilesDeletedUsingDirectoryMtime ::
  "string \<Rightarrow> string \<Rightarrow> string \<Rightarrow> world \<Rightarrow> (error + bool) \<times> world" where
  "hasFilesDeletedUsingDirectoryMtime workdirPath workdirName currentBranchName w =
     (case stat (fsRoot w) (pathAbs (currentDir w) workdirPath) of
        None \<Rightarrow> (Inl WorkdirPathNotAccessible, w)
      | Some dirStat \<Rightarrow>
      (let currentDirMtime = modTime dirStat in
      (case getCacheFilePath w workdirPath of
        Inl e \<Rightarrow> (Inl e, w)
      | Inr cacheFile \<Rightarrow>
      if (case readLastMtimeFromFile w cacheFile of
            Some lastMtime \<Rightarrow> \<not> currentDirMtime > lastMtime
          | None \<Rightarrow> False)
      then (Inr False, w)
      else
      (case getCurrentHeadSHA1 w workdirPath of
        Inl e \<Rightarrow> (Inl e, w)
      | Inr headSHA1 \<Rightarrow>
      (let cacheKey = (workdirPath, headSHA1);
           cachedDirState = directoryStateCache (cache w) cacheKey;
           cachedFileList = fileListCache (cache w) cacheKey
       in
       if (case (cachedDirState, cachedFileList) of
             (Some directoryMtime, Some fl) \<Rightarrow> \<not> currentDirMtime > directoryMtime
           | _ \<Rightarrow> False)
       then (Inr False, w)
       else if currentDirMtime < now w - 3600
       then (Inr False, writeLastMtimeToFile cacheFile currentDirMtime w)
       else
       (case getFileListInDirectory w workdirPath of
         Inl e \<Rightarrow> (Inl e, w)
       | Inr currentFiles \<Rightarrow>
       (case (case cachedFileList of
                Some (cachedHead, fileList) \<Rightarrow>
                  if cachedHead = headSHA1 then (Inr fileList, w)
                  else getTrackedFilesFromWmemTree workdirName currentBranchName w
              | None \<Rightarrow> getTrackedFilesFromWmemTree workdirName currentBranchName w) of
          (Inl e, w1) \<Rightarrow> (Inl e, w1)
        | (Inr previousFiles, w1) \<Rightarrow>
            (let hasDeletedFiles = list_ex (\<lambda>file. file \<notin> set currentFiles) previousFiles;
                 w2 = w1\<lparr>cache := (cache w1)
                        \<lparr>directoryStateCache :=
                           (directoryStateCache (cache w1))(cacheKey \<mapsto> currentDirMtime),
                         fileListCache :=
                           (fileListCache (cache w1))(cacheKey \<mapsto> (headSHA1, currentFiles))\<rparr>\<rparr>
             in (Inr hasDeletedFiles, writeLastMtimeToFile cacheFile currentDirMtime w2)))))))))"

definition hasFilesDeletedUsingTreeWalk ::
  "world \<Rightarrow> string \<Rightarrow> string \<Rightarrow> string \<Rightarrow> error + bool" where
  "hasFilesDeletedUsingTreeWalk w workdirPath workdirName currentBranchName =
     (case repos w workdirName of
        None \<Rightarrow> Inr False
      | Some bareRepo \<Rightarrow>
          (case refs bareRepo (wmemBranchRef currentBranchName) of
             None \<Rightarrow> Inr False
           | Some h \<Rightarrow>
               (case CommitObject (objects bareRepo) h of
                  None \<Rightarrow> Inl CommitObjectMissing
                | Some wmemCommit \<Rightarrow>
                    Inr (list_ex
                           (\<lambda>file. stat (fsRoot w)
                                     (pathJoin (pathAbs (currentDir w) workdirPath) (Name file)) = None)
                           (treeFiles [] (TreeHash wmemCommit))))))"

definition hasFilesDeletedSinceLastWmemCommit ::
  "string \<Rightarrow> string \<Rightarrow> string \<Rightarrow> world \<Rightarrow> (error + bool) \<times> world" where
  "hasFilesDeletedSinceLastWmemCommit workdirPath workdirName currentBranchName w =
     (case hasFilesDeletedUsingDirectoryMtime workdirPath workdirName currentBranchName w of
        (Inr hasDeleted, w1) \<Rightarrow> (Inr hasDeleted, w1)
      | (Inl e, w1) \<Rightarrow>
          (hasFilesDeletedUsingTreeWalk w1 workdirPath workdirName currentBranchName, w1))"

definition hasFilesNewerThanLastWmemCommit ::
  "string \<Rightarrow> string \<Rightarrow> string \<Rightarrow> world \<Rightarrow> (error + bool) \<times> world" where
  "hasFilesNewerThanLastWmemCommit workdirPath workdirName currentBranchName w =
     (case getLastWmemCommitTime w workdirName currentBranchName of
        Inl e \<Rightarrow> (Inl e, w)
      | Inr lastCommitTime \<Rightarrow>
          (case hasFilesNewerThan w workdirPath lastCommitTime of
             Inl e \<Rightarrow> (Inl e, w)
           | Inr hasNewerFiles \<Rightarrow>
               if hasNewerFiles then (Inr True, w)
               else hasFilesDeletedSinceLastWmemCommit workdirPath workdirName
                      currentBranchName w))"

definition hasWorkingDirectoryChanges :: "world \<Rightarrow> string \<Rightarrow> error + bool" where
  "hasWorkingDirectoryChanges w workdirPath =
     (case PlainOpenWorkdir w workdirPath of
        None \<Rightarrow> Inl OpenWorkdirRepoFailed
      | Some workdirRepo \<Rightarrow> Inr (\<not> wdClean workdirRepo))"

definition isHeadUnchangedSinceLastWmemCommit ::
  "world \<Rightarrow> string \<Rightarrow> string \<Rightarrow> string \<Rightarrow> error + bool" where
  "isHeadUnchangedSinceLastWmemCommit w workdirPath workdirName currentBranchName =
     (case PlainOpenWorkdir w workdirPath of
        None \<Rightarrow> Inl OpenWorkdirRepoFailed
      | Some workdirRepo \<Rightarrow>
      (case wdHead workdirRepo of
        None \<Rightarrow> Inl WorkdirHeadFailed
      | Some (b, currentHead) \<Rightarrow>
      (case repos w workdirName of
        None \<Rightarrow> Inl OpenBareRepoFailed
      | Some bareRepo \<Rightarrow>
      (case refs bareRepo (wmemBranchRef currentBranchName) of
        None \<Rightarrow> Inr False
      | Some h \<Rightarrow>
      (case CommitObject (objects bareRepo) h of
        None \<Rightarrow> Inl CommitObjectMissing
      | Some wmemCommit \<Rightarrow>
          if commitMessage wmemCommit = ''Commit from workdir: '' @ hashString w currentHead
          then Inr True
          else Inr (currentHead \<in> set (ParentHashes wmemCommit)))))))"

text \<open>
  \<open>findLastMergeCommit\<close>: go-git's iterator by committer time is taken to visit the
  history newest first; the first commit with two parents is the answer.
\<close>

definition findLastMergeCommit :: "wd_repo \<Rightarrow> hash \<Rightarrow> error + hash" where
  "findLastMergeCommit r startHash =
     (case CommitObject (wdObjects r) startHash of
        None \<Rightarrow> Inl CommitObjectMissing
      | Some commit \<Rightarrow>
          (case find (\<lambda>c. length (ParentHashes c) = 2)
                  (sort_key (\<lambda>c. - CommitterWhen c) (remdups (history commit))) of
             Some c \<Rightarrow> Inr c
           | None \<Rightarrow> Inl NoMergeCommitFound))"

text \<open>
  \<open>getTouchedFilesSinceMerge\<close>: of go-git's tree diff the loop keeps names only: the
  new name of every entry that was added or changed, the old name of every entry that is
  gone. The order of go-git's diff is not modelled.
\<close>

definition diffNames :: "hash \<Rightarrow> hash \<Rightarrow> string list" where
  "diffNames fromTree toTree =
     (let a = treeFiles [] fromTree; b = treeFiles [] toTree
      in map Name (filter (\<lambda>e. e \<notin> set a) b)
         @ filter (\<lambda>n. n \<notin> set (map Name b)) (map Name a))"

definition getTouchedFilesSinceMerge :: "world \<Rightarrow> string \<Rightarrow> hash \<Rightarrow> error + string list" where
  "getTouchedFilesSinceMerge w workdirPath lastMergeHash =
     (case PlainOpenWorkdir w workdirPath of
        None \<Rightarrow> Inl OpenWorkdirRepoFailed
      | Some workdirRepo \<Rightarrow>
      (case wdHead workdirRepo of
        None \<Rightarrow> Inl WorkdirHeadFailed
      | Some (b, head) \<Rightarrow>
      (case CommitObject (wdObjects workdirRepo) head of
        None \<Rightarrow> Inl CommitObjectMissing
      | Some headCommit \<Rightarrow>
      (case CommitObject (wdObjects workdirRepo) lastMergeHash of
        None \<Rightarrow> Inl CommitObjectMissing
      | Some lastMergeCommit \<Rightarrow>
          Inr (diffNames (TreeHash lastMergeCommit) (TreeHash headCommit))))))"

text \<open>
  \<open>checkModifiedFiles\<close>, in two parts: the comparison of trees that the source falls
  back to, and the cascade of early exits before it. A tree that the comparison builds is
  written to the bare store.
\<close>

definition compareTrees ::
  "string \<Rightarrow> string \<Rightarrow> string \<Rightarrow> world \<Rightarrow> (error + bool) \<times> world" where
  "compareTrees workdirPath workdirName currentBranchName w =
     (let absWorkdirPath = pathAbs (currentDir w) workdirPath in
      (case repos w workdirName of
        None \<Rightarrow> (Inl OpenBareRepoFailed, w)
      | Some bareRepo \<Rightarrow>
      (case refs bareRepo (wmemBranchRef currentBranchName) of
        None \<Rightarrow> (Inl WmemBranchRefMissing, w)
      | Some wmemBranchHash \<Rightarrow>
      (case CommitObject (objects bareRepo) wmemBranchHash of
        None \<Rightarrow> (Inl CommitObjectMissing, w)
      | Some wmemCommit \<Rightarrow>
      (case PlainOpenWorkdir w workdirPath of
        None \<Rightarrow> (Inl OpenWorkdirRepoFailed, w)
      | Some workdirRepo \<Rightarrow>
      (case wdHead workdirRepo of
        None \<Rightarrow> (Inl WorkdirHeadFailed, w)
      | Some (b, headSHA1) \<Rightarrow>
      (case findLastMergeCommit workdirRepo headSHA1 of
        Inl e \<Rightarrow>
          (case createTreeFromFilesystemAt (fsRoot w) (wdGit w) absWorkdirPath of
             Inl e' \<Rightarrow> (Inl e', w)
           | Inr currentTreeHash \<Rightarrow>
               (Inr (currentTreeHash \<noteq> TreeHash wmemCommit),
                setRepo workdirName (SetEncodedObject currentTreeHash bareRepo) w))
      | Inr lastMergeSHA1 \<Rightarrow>
      (case (case touchedFilesCache (cache w) workdirPath of
               Some (h, m, touched) \<Rightarrow>
                 if h = headSHA1 \<and> m = lastMergeSHA1 then Inr touched
                 else getTouchedFilesSinceMerge w workdirPath lastMergeSHA1
             | None \<Rightarrow> getTouchedFilesSinceMerge w workdirPath lastMergeSHA1) of
        Inl e \<Rightarrow> (Inl e, w)
      | Inr touchedFiles \<Rightarrow>
      (let w1 = w\<lparr>cache := (cache w)\<lparr>touchedFilesCache :=
                  (touchedFilesCache (cache w))(workdirPath \<mapsto>
                     (headSHA1, lastMergeSHA1, touchedFiles))\<rparr>\<rparr>
       in
       if touchedFiles = [] then (Inr False, w1)
       else
       (case (case treeHashCache (cache w1) workdirPath of
                Some (h, touched, treeHash) \<Rightarrow>
                  if h = headSHA1 \<and> touched = touchedFiles then Inr treeHash
                  else createTreeFromTouchedFiles (objects bareRepo) (fsRoot w1) absWorkdirPath
                         touchedFiles (TreeHash wmemCommit)
              | None \<Rightarrow>
                  createTreeFromTouchedFiles (objects bareRepo) (fsRoot w1) absWorkdirPath
                    touchedFiles (TreeHash wmemCommit)) of
          Inl e \<Rightarrow> (Inl e, w1)
        | Inr currentTreeHash \<Rightarrow>
            (Inr (currentTreeHash \<noteq> TreeHash wmemCommit),
             setRepo workdirName (SetEncodedObject currentTreeHash bareRepo)
               (w1\<lparr>cache := (cache w1)\<lparr>treeHashCache :=
                     (treeHashCache (cache w1))(workdirPath \<mapsto>
                        (headSHA1, touchedFiles, currentTreeHash))\<rparr>\<rparr>))))))))))))"

definition checkModifiedFiles ::
  "string \<Rightarrow> string \<Rightarrow> string \<Rightarrow> world \<Rightarrow> (error + bool) \<times> world" where
  "checkModifiedFiles workdirPath workdirName currentBranchName w =
     (case hasFilesNewerThanLastWmemCommit workdirPath workdirName currentBranchName w of
        (Inr False, w1) \<Rightarrow> (Inr False, w1)
      | (r, w1) \<Rightarrow>
          (case hasWorkingDirectoryChanges w1 workdirPath of
             Inl e \<Rightarrow> (Inl e, w1)
           | Inr hasCurrentChanges \<Rightarrow>
               if \<not> hasCurrentChanges
                  \<and> isHeadUnchangedSinceLastWmemCommit w1 workdirPath workdirName
                        currentBranchName = Inr True
               then (Inr False, w1)
               else compareTrees workdirPath workdirName currentBranchName w1))"

section \<open>The commit pipeline (Sync Engine and Commit Coordinator)\<close>

definition createRegularCommit ::
  "world \<Rightarrow> repo \<Rightarrow> hash \<Rightarrow> CommitInfo \<Rightarrow> signature \<Rightarrow> signature \<Rightarrow> string
     \<Rightarrow> error + (hash \<times> repo)" where
  \<comment> \<open>\<open>createTreeFromCurrentState\<close> is \<open>createTreeFromFilesystem\<close> at the absolute path\<close>
  "createRegularCommit w r wmemBranchHash commitInfo author committer workdirPath =
     (case createTreeFromFilesystemAt (fsRoot w) (wdGit w) (pathAbs (currentDir w) workdirPath) of
        Inl e \<Rightarrow> Inl e
      | Inr rootTreeHash \<Rightarrow>
          (let commit = CommitObj rootTreeHash [wmemBranchHash] author committer
                          (Message commitInfo)
           in Inr (commit, SetEncodedObject commit (SetEncodedObject rootTreeHash r))))"

definition addFilesAndCommit ::
  "string \<Rightarrow> string \<Rightarrow> string \<Rightarrow> CommitInfo \<Rightarrow> world \<Rightarrow> (error + hash) \<times> world" where
  "addFilesAndCommit workdirPath workdirName currentBranchName commitInfo w =
     (case repos w workdirName of
        None \<Rightarrow> (Inl OpenBareRepoFailed, w)
      | Some bareRepo \<Rightarrow>
      (case refs bareRepo (wmemBranchRef currentBranchName) of
        None \<Rightarrow> (Inl WmemBranchRefMissing, w)
      | Some wmemBranchHash \<Rightarrow>
      (case parseCommitSignatures (now w) commitInfo of
        Inl e \<Rightarrow> (Inl e, w)
      | Inr (authorSig, committerSig) \<Rightarrow>
      (case createRegularCommit w bareRepo wmemBranchHash commitInfo authorSig committerSig
              workdirPath of
        Inl e \<Rightarrow> (Inl e, w)
      | Inr (newCommitHash, bareRepo') \<Rightarrow>
          (Inr newCommitHash,
           setRepo workdirName
             (SetReference (wmemBranchRef currentBranchName) newCommitHash bareRepo') w)))))"

definition updateWmemHeadBranch :: "string \<Rightarrow> hash \<Rightarrow> world \<Rightarrow> (error + unit) \<times> world" where
  "updateWmemHeadBranch workdirName newCommitHash w =
     (case repos w workdirName of
        None \<Rightarrow> (Inl OpenBareRepoFailed, w)
      | Some bareRepo \<Rightarrow>
          (Inr (), setRepo workdirName (SetReference wmemHeadRef newCommitHash bareRepo) w))"

definition commitWorkdirWithChanges ::
  "string \<Rightarrow> string \<Rightarrow> string \<Rightarrow> CommitInfo \<Rightarrow> world
     \<Rightarrow> (error + WorkdirCommitResult) \<times> world" where
  "commitWorkdirWithChanges workdirPath workdirName currentBranchName commitInfo w =
     (case addFilesAndCommit workdirPath workdirName currentBranchName commitInfo w of
        (Inl e, w1) \<Rightarrow> (Inl e, w1)
      | (Inr newCommitHash, w1) \<Rightarrow>
          (case updateWmemHeadBranch workdirName newCommitHash w1 of
             (Inl e, w2) \<Rightarrow> (Inl e, w2)
           | (Inr u, w2) \<Rightarrow>
               (Inr \<lparr> WorkdirName = workdirName, BranchName = currentBranchName,
                       CommitHash = hashString w2 newCommitHash, HasChanges = True \<rparr>, w2)))"

definition failedCheck :: "string \<Rightarrow> string \<Rightarrow> string \<Rightarrow> error \<Rightarrow> workdirCheckResult" where
  "failedCheck workdirPath workdirName currentBranchName e =
     \<lparr> crWorkdirPath = workdirPath, crWorkdirName = workdirName,
       crCurrentBranchName = currentBranchName, crHasModifiedFiles = False,
       crError = Some e \<rparr>"

definition checkWorkdirInParallel ::
  "string \<Rightarrow> (string \<times> string) list \<Rightarrow> CommitInfo \<Rightarrow> world
     \<Rightarrow> workdirCheckResult \<times> world" where
  "checkWorkdirInParallel workdirPath workdirMap commitInfo w =
     (case FindWorkdirName workdirPath workdirMap of
        None \<Rightarrow> (failedCheck workdirPath [] [] WorkdirNotInMap, w)
      | Some workdirName \<Rightarrow>
      (case getCurrentBranchName w workdirPath of
        Inl e \<Rightarrow> (failedCheck workdirPath workdirName [] e, w)
      | Inr currentBranchName \<Rightarrow>
      (case ensureWmemBranchExists workdirName currentBranchName workdirPath w of
        (Inl e, w1) \<Rightarrow> (failedCheck workdirPath workdirName currentBranchName e, w1)
      | (Inr u1, w1) \<Rightarrow>
      (case ensureWmemHeadBranch workdirName currentBranchName w1 of
        (Inl e, w2) \<Rightarrow> (failedCheck workdirPath workdirName currentBranchName e, w2)
      | (Inr u2, w2) \<Rightarrow>
      (case fetchLatestChanges workdirName w2 of
        (Inl e, w3) \<Rightarrow> (failedCheck workdirPath workdirName currentBranchName e, w3)
      | (Inr u3, w3) \<Rightarrow>
      (case ensureWorkdirCommitMerged workdirPath workdirName currentBranchName commitInfo w3 of
        (Inl e, w4) \<Rightarrow> (failedCheck workdirPath workdirName currentBranchName e, w4)
      | (Inr merged, w4) \<Rightarrow>
      (case checkModifiedFiles workdirPath workdirName currentBranchName w4 of
        (Inl e, w5) \<Rightarrow> (failedCheck workdirPath workdirName currentBranchName e, w5)
      | (Inr hasModifiedFiles, w5) \<Rightarrow>
          (\<lparr> crWorkdirPath = workdirPath, crWorkdirName = workdirName,
             crCurrentBranchName = currentBranchName, crHasModifiedFiles = hasModifiedFiles,
             crError = None \<rparr>, w5))))))))"

text \<open>
  \<open>runParallelWorkdirChecks\<close> starts one goroutine per workdir and waits for all of
  them. The model runs the checks one after the other in the order of the path list: one of
  the schedules the Go runtime may choose.
\<close>

fun runParallelWorkdirChecks ::
  "string list \<Rightarrow> (string \<times> string) list \<Rightarrow> CommitInfo \<Rightarrow> world
     \<Rightarrow> workdirCheckResult list \<times> world" where
  "runParallelWorkdirChecks [] workdirMap commitInfo w = ([], w)"
| "runParallelWorkdirChecks (workdirPath # rest) workdirMap commitInfo w =
     (case checkWorkdirInParallel workdirPath workdirMap commitInfo w of
        (result, w1) \<Rightarrow>
          (case runParallelWorkdirChecks rest workdirMap commitInfo w1 of
             (results, w2) \<Rightarrow> (result # results, w2)))"

definition charset :: string where
  "charset = ''abcdefghijklmnopqrstuvwxyzABCDEFGHIJKLMNOPQRSTUVWXYZ0123456789''"

definition generateWmemUID :: "world \<Rightarrow> error + string" where
  \<comment> \<open>\<open>rand.Read\<close> fails when it delivers fewer than eight bytes\<close>
  "generateWmemUID w =
     (if length (randomBytes w) < 8 then Inl GenerateWmemUidFailed
      else Inr (''wmem-'' @ uidDate w @ ''-'' @ uidTime w @ ''-''
                @ map (\<lambda>b. charset ! ((b mod 256) mod length charset))
                      (take 8 (randomBytes w))))"

definition readCommitInfo :: "world \<Rightarrow> error + CommitInfo" where
  "readCommitInfo w =
     (case generateWmemUID w of
        Inl e \<Rightarrow> Inl e
      | Inr wmemUID \<Rightarrow>
      (case msgPrefixFile (metaTree w) of
        Content msgPrefix \<Rightarrow>
          (case authorFile (metaTree w) of
             Content author \<Rightarrow>
               (case committerFile (metaTree w) of
                  Content committer \<Rightarrow>
                    (let message = trimSpace msgPrefix;
                         message' = (if message \<noteq> [] then message @ [CHR 0x0A, CHR 0x0A]
                                     else message)
                     in Inr \<lparr> WmemUID = wmemUID,
                              Message = message' @ ''wmem-uid: '' @ wmemUID,
                              Author = trimSpace author,
                              Committer = trimSpace committer \<rparr>)
                | _ \<Rightarrow> Inl ReadCommitterFailed)
           | _ \<Rightarrow> Inl ReadAuthorFailed)
      | _ \<Rightarrow> Inl ReadMsgPrefixFailed))"

fun resultLines :: "WorkdirCommitResult list \<Rightarrow> string" where
  "resultLines [] = []"
| "resultLines (result # rest) =
     (if HasChanges result
      then [CHR 0x0A] @ ''- `'' @ WorkdirName result @ ''` `'' @ BranchName result @ ''` `''
             @ take 12 (CommitHash result) @ ''`'' @ resultLines rest
      else resultLines rest)"

definition generateWmemRepoCommitMessage :: "CommitInfo \<Rightarrow> WorkdirCommitResult list \<Rightarrow> string" where
  "generateWmemRepoCommitMessage commitInfo workdirResults =
     Message commitInfo @ [CHR 0x0A, CHR 0x0A] @ ''Meta wmem-commit of workdir commits''
       @ resultLines workdirResults
       @ (if \<not> list_ex HasChanges workdirResults
          then [CHR 0x0A] @ ''(No workdir changes - metadata only)'' else [])"

definition sameFiles :: "('k \<times> 'v) list \<Rightarrow> ('k \<times> 'v) list \<Rightarrow> bool" where
  "sameFiles xs ys =
     (list_all (\<lambda>(k, v). map_of ys k = Some v) xs \<and> list_all (\<lambda>(k, v). map_of xs k = Some v) ys)"

definition metaClean :: "world \<Rightarrow> bool" where
  \<comment> \<open>\<open>status.IsClean()\<close> in the meta-repository: no tracked file differs from \<open>HEAD\<close>
      and no file is untracked\<close>
  "metaClean w =
     (pathsFile (metaTree w) = pathsFile (metaHead w)
      \<and> msgPrefixFile (metaTree w) = msgPrefixFile (metaHead w)
      \<and> authorFile (metaTree w) = authorFile (metaHead w)
      \<and> committerFile (metaTree w) = committerFile (metaHead w)
      \<and> workdirMapFile (metaTree w) = workdirMapFile (metaHead w)
      \<and> sameFiles (cacheFiles (metaTree w)) (cacheFiles (metaHead w)))"

definition hasWmemRepoMetadataChanges :: "world \<Rightarrow> error + bool" where
  "hasWmemRepoMetadataChanges w = Inr (\<not> metaClean w)"

definition createWmemCommit ::
  "CommitInfo \<Rightarrow> WorkdirCommitResult list \<Rightarrow> world \<Rightarrow> (error + unit) \<times> world" where
  \<comment> \<open>everything is staged, then the commit is written; empty commits are allowed\<close>
  "createWmemCommit commitInfo workdirResults w =
     (let wmemCommitMessage = generateWmemRepoCommitMessage commitInfo workdirResults in
      (case parseSignature (now w) (Author commitInfo) of
         Inl e \<Rightarrow> (Inl e, w)
       | Inr authorSig \<Rightarrow>
           (case parseSignature (now w) (Committer commitInfo) of
              Inl e \<Rightarrow> (Inl e, w)
            | Inr committerSig \<Rightarrow>
                (Inr (), w\<lparr>metaLog := MetaCommit wmemCommitMessage authorSig committerSig
                                       # metaLog w,
                            metaHead := metaTree w\<rparr>))))"

text \<open>
  The second phase of \<open>commitAll\<close>: the loop over the check results, with the results
  and the flag \<open>hasAnyChanges\<close> it accumulates.
\<close>

fun processResults ::
  "workdirCheckResult list \<Rightarrow> CommitInfo \<Rightarrow> WorkdirCommitResult list \<Rightarrow> bool \<Rightarrow> world
     \<Rightarrow> (error + (WorkdirCommitResult list \<times> bool)) \<times> world" where
  "processResults [] commitInfo workdirResults hasAnyChanges w =
     (Inr (workdirResults, hasAnyChanges), w)"
| "processResults (checkResult # rest) commitInfo workdirResults hasAnyChanges w =
     (case crError checkResult of
        Some e \<Rightarrow> (Inl e, w)
      | None \<Rightarrow>
          if \<not> crHasModifiedFiles checkResult then
            processResults rest commitInfo
              (workdirResults @ [\<lparr> WorkdirName = crWorkdirName checkResult,
                                    BranchName = crCurrentBranchName checkResult,
                                    CommitHash = [], HasChanges = False \<rparr>])
              hasAnyChanges w
          else
            (case commitWorkdirWithChanges (crWorkdirPath checkResult) (crWorkdirName checkResult)
                    (crCurrentBranchName checkResult) commitInfo w of
               (Inl e, w1) \<Rightarrow> (Inl e, w1)
             | (Inr result, w1) \<Rightarrow>
                 processResults rest commitInfo (workdirResults @ [result])
                   (hasAnyChanges \<or> HasChanges result) w1))"

definition commitAll :: "string list \<Rightarrow> world \<Rightarrow> (error + unit) \<times> world" where
  "commitAll workdirPaths w =
     (case readCommitInfo w of
        Inl e \<Rightarrow> (Inl e, w)
      | Inr commitInfo \<Rightarrow>
      (case readWorkdirMap w of
        Inl e \<Rightarrow> (Inl e, w)
      | Inr workdirMap \<Rightarrow>
      (case (if length workdirPaths = 1
             then (case checkWorkdirInParallel (hd workdirPaths) workdirMap commitInfo w of
                     (result, w1) \<Rightarrow> ([result], w1))
             else runParallelWorkdirChecks workdirPaths workdirMap commitInfo w) of
        (checkResults, w1) \<Rightarrow>
      (case processResults checkResults commitInfo [] False w1 of
        (Inl e, w2) \<Rightarrow> (Inl e, w2)
      | (Inr (workdirResults, hasAnyChanges), w2) \<Rightarrow>
          if hasAnyChanges then createWmemCommit commitInfo workdirResults w2
          else
            (case hasWmemRepoMetadataChanges w2 of
               Inl e \<Rightarrow> (Inl e, w2)
             | Inr hasMetadataChanges \<Rightarrow>
                 if hasMetadataChanges then createWmemCommit commitInfo workdirResults w2
                 else (Inr (), w2))))))"

definition CommitWmem :: "world \<Rightarrow> (error + unit) \<times> world" where
  "CommitWmem w =
     (if \<not> isWmemRepo w then (Inl NotInWmemRepo, w)
      else case readWorkdirPaths w of
        Inl e \<Rightarrow> (Inl e, w)
      | Inr workdirPaths \<Rightarrow>
          if length workdirPaths = 0 then (Inl NoWorkdirsConfigured, w)
          else (case initRepos workdirPaths w of
                  (Inl e, w1) \<Rightarrow> (Inl e, w1)
                | (Inr u, w1) \<Rightarrow> commitAll workdirPaths w1))"

text \<open>
  One run of the command \<open>git-wmem-commit\<close>: a new process, whose in-memory caches
  start empty, at a time of the clock.
\<close>

definition runCommit :: "int \<Rightarrow> world \<Rightarrow> (error + unit) \<times> world" where
  "runCommit t w = CommitWmem (w\<lparr>now := t, cache := emptyCache\<rparr>)"

text \<open>
  The rules of the specification, stated on the text of a path: a \<open>..\<close> segment that
  follows a segment other than \<open>..\<close> (empty strings between slashes are not segments),
  and an absolute path that is the meta-repository or lies inside it.
\<close>

definition dotDotAfterNormal :: "string \<Rightarrow> bool" where
  "dotDotAfterNormal p =
     (''..'' \<in> set (dropWhile (\<lambda>s. s = ''..'' \<or> s = []) (split p ''/'')))"

definition insideMeta :: "string \<Rightarrow> string \<Rightarrow> bool" where
  "insideMeta cwd a = (a = cwd \<or> hasPrefix a (cwd @ ''/''))"

definition storesKept :: "world \<Rightarrow> world \<Rightarrow> bool" where
  \<comment> \<open>no bare store is removed and no object leaves a bare store\<close>
  "storesKept w w' =
     (\<forall>n r. repos w n = Some r \<longrightarrow> (\<exists>r'. repos w' n = Some r' \<and> objects r \<subseteq> objects r'))"

definition withPathsFile :: "file_read \<Rightarrow> world \<Rightarrow> world" where
  \<comment> \<open>the world with another state of \<open>md/commit-workdir-paths\<close>\<close>
  "withPathsFile f w = w\<lparr>metaTree := (metaTree w)\<lparr>pathsFile := f\<rparr>\<rparr>"

section \<open>Scenarios\<close>

text \<open>
  The concrete states at which the program is run below. The meta-repository is
  \<open>/home/u/my-wmem1\<close>, as \<open>git-wmem-init\<close> leaves it; the workdirs are its siblings.
  Times are seconds on one clock. \<open>projectA\<close> is a workdir with one committed file and
  nothing else.
\<close>

definition sigDev :: signature where
  "sigDev = Signature ''Dev'' ''dev@example.org'' 1000"

definition wmemSig :: "int \<Rightarrow> signature" where
  "wmemSig t = Signature ''WMem Git'' ''git-wmem@mj41.cz'' t"

definition treeA :: hash where
  "treeA = TreeObj [(''fileA.txt'', Regular, BlobObj ''initial content'')]"

definition commitA :: hash where
  "commitA = CommitObj treeA [] sigDev sigDev ''Initial commit''"

definition gitDir :: "string \<times> node" where
  "gitDir = (''.git'', Directory 1000 [])"

definition projectA :: node where
  "projectA = Directory 900 [gitDir, (''fileA.txt'', File 420 900 ''initial content'')]"

definition disk :: "(string \<times> node) list \<Rightarrow> node" where
  "disk projects =
     Directory 0 [(''home'', Directory 0 [(''u'', Directory 0
        (projects @ [(''my-wmem1'', Directory 0 [])]))])]"

definition repoA :: wd_repo where
  "repoA = \<lparr> wdHead = Some (''main'', commitA), wdObjects = {commitA}, wdClean = True \<rparr>"

definition metaInit :: meta_tree where
  "metaInit = \<lparr> pathsFile = Content [], msgPrefixFile = Content [],
     authorFile = Content ''WMem Git <git-wmem@mj41.cz>'',
     committerFile = Content ''WMem Git <git-wmem@mj41.cz>'',
     workdirMapFile = Some [], cacheFiles = [] \<rparr>"

text \<open>
  \<open>worldA\<close>: a fresh meta-repository whose path list names \<open>../my-projectA\<close>; no bare
  store exists yet.
\<close>

definition worldA :: world where
  "worldA = \<lparr> fsRoot = disk [(''my-projectA'', projectA)],
      wdGit = [''/home/u/my-projectA'' \<mapsto> repoA],
      currentDir = ''/home/u/my-wmem1'', now = 5000,
      uidDate = ''250628'', uidTime = ''143022'', randomBytes = [0, 1, 2, 3, 4, 5, 6, 7],
      hashString = (\<lambda>h. ''0000000000000000000000000000000000000000''),
      hasMarker = True,
      metaTree = metaInit\<lparr>pathsFile := Content ''../my-projectA''\<rparr>,
      metaHead = metaInit,
      metaLog = [],
      repos = Map.empty,
      cache = emptyCache \<rparr>"

text \<open>
  \<open>worldM\<close>: the workdir has a second commit \<open>commitB\<close> that the bare store has fetched,
  while \<open>wmem-br/main\<close> points at an earlier snapshot \<open>snapA\<close>: the workdir's \<open>HEAD\<close>
  is not an ancestor of the tip.
\<close>

definition treeB :: hash where
  "treeB = TreeObj [(''fileA.txt'', Regular, BlobObj ''changed'')]"

definition commitB :: hash where
  "commitB = CommitObj treeB [commitA] sigDev sigDev ''Second commit''"

definition snapA :: hash where
  "snapA = CommitObj treeA [commitA] (wmemSig 1500) (wmemSig 1500)
             ''wmem-uid: wmem-250627-120000-xyz9876A''"

definition storeM :: repo where
  "storeM = \<lparr> objects = {commitA, commitB, snapA},
      refs = [''refs/heads/wmem-br/main'' \<mapsto> snapA, ''refs/heads/wmem-br/head'' \<mapsto> snapA],
      symHEAD = ''refs/heads/wmem-br/main'',
      remotes = [(''wmem-wd'', ''/home/u/my-projectA'')] \<rparr>"

definition infoM :: CommitInfo where
  "infoM = \<lparr> WmemUID = ''wmem-250628-143022-abcdefgh'',
      Message = ''wmem-uid: wmem-250628-143022-abcdefgh'',
      Author = ''WMem Git <git-wmem@mj41.cz>'',
      Committer = ''WMem Git <git-wmem@mj41.cz>'' \<rparr>"

definition worldM :: world where
  "worldM = worldA\<lparr>
      wdGit := [''/home/u/my-projectA'' \<mapsto>
                 \<lparr> wdHead = Some (''main'', commitB), wdObjects = {commitA, commitB},
                   wdClean = True \<rparr>],
      repos := [''my-projectA'' \<mapsto> storeM]\<rparr>"

text \<open>
  \<open>projectC\<close>: a workdir with a file in a subdirectory; \<open>priorC\<close> is the root tree of
  its last snapshot, taken when \<open>src/main.py\<close> still held \<open>v1\<close>.
\<close>

definition projectC :: node where
  "projectC = Directory 900 [gitDir, (''README.md'', File 420 900 ''readme''),
                (''src'', Directory 2000 [(''main.py'', File 420 2000 ''v2'')])]"

definition priorC :: hash where
  "priorC = TreeObj [(''README.md'', Regular, BlobObj ''readme''),
                     (''src'', Dir, TreeObj [(''main.py'', Regular, BlobObj ''v1'')])]"

text \<open>
  \<open>projectL\<close>: a workdir with a file, a symbolic link \<open>l\<close> to it (permission bits
  \<open>0777\<close>, as Linux reports for every link) and a dangling link \<open>gone\<close>.
\<close>

definition projectL :: node where
  "projectL = Directory 900 [gitDir, (''f.txt'', File 420 900 ''hello''),
                (''gone'', Symlink 511 900 ''nowhere'' Dangling),
                (''l'', Symlink 511 900 ''f.txt'' (ToFile 420 900 ''hello''))]"

text \<open>
  \<open>worldD\<close>: the last snapshot \<open>snapD\<close> (time 2500) recorded \<open>docs/a.txt\<close>, a file
  the user never committed; the checkpoint holds the root's modification time 900; at time
  3000 the user deleted \<open>docs/a.txt\<close>, which touched the directory \<open>docs\<close> and nothing
  else.
\<close>

definition treeD0 :: hash where
  "treeD0 = TreeObj [(''docs'', Dir, TreeObj [(''b.txt'', Regular, BlobObj ''b'')]),
                     (''fileA.txt'', Regular, BlobObj ''initial content'')]"

definition commitD0 :: hash where
  "commitD0 = CommitObj treeD0 [] sigDev sigDev ''Initial commit''"

definition treeD :: hash where
  "treeD = TreeObj [(''docs'', Dir, TreeObj [(''a.txt'', Regular, BlobObj ''notes''),
                                             (''b.txt'', Regular, BlobObj ''b'')]),
                    (''fileA.txt'', Regular, BlobObj ''initial content'')]"

definition snapD :: hash where
  "snapD = CommitObj treeD [commitD0] (wmemSig 2500) (wmemSig 2500)
             ''wmem-uid: wmem-250627-120000-xyz9876A''"

definition projectD :: node where
  "projectD = Directory 900 [gitDir,
                (''docs'', Directory 3000 [(''b.txt'', File 420 800 ''b'')]),
                (''fileA.txt'', File 420 900 ''initial content'')]"

definition metaD :: meta_tree where
  "metaD = metaInit\<lparr>pathsFile := Content ''../my-projectA'',
                      workdirMapFile := Some [(''my-projectA'', ''../my-projectA'')],
                      cacheFiles := [(''git-wmem-cache-my-projectA.json'', 900)]\<rparr>"

definition worldD :: world where
  "worldD = worldA\<lparr>
      fsRoot := disk [(''my-projectA'', projectD)],
      wdGit := [''/home/u/my-projectA'' \<mapsto>
                 \<lparr> wdHead = Some (''main'', commitD0), wdObjects = {commitD0}, wdClean = True \<rparr>],
      metaTree := metaD, metaHead := metaD,
      repos := [''my-projectA'' \<mapsto>
                 \<lparr> objects = {commitD0, snapD},
                   refs = [''refs/heads/wmem-br/main'' \<mapsto> snapD,
                           ''refs/heads/wmem-br/head'' \<mapsto> snapD],
                   symHEAD = ''refs/heads/wmem-br/main'',
                   remotes = [(''wmem-wd'', ''/home/u/my-projectA'')] \<rparr>]\<rparr>"

text \<open>
  \<open>worldB\<close>: as \<open>worldA\<close>, with an untracked file \<open>X.txt\<close> written at time 2000.
  \<open>worldB1\<close> is the state after a first run at time 5000, \<open>worldB2\<close> the state after a
  second run at time 6000.
\<close>

definition projectX :: node where
  "projectX = Directory 2000 [gitDir, (''X.txt'', File 420 2000 ''new''),
                             (''fileA.txt'', File 420 900 ''initial content'')]"

definition worldB :: world where
  "worldB = worldA\<lparr>fsRoot := disk [(''my-projectA'', projectX)],
       wdGit := [''/home/u/my-projectA'' \<mapsto> repoA\<lparr>wdClean := False\<rparr>]\<rparr>"

definition treeX :: hash where
  "treeX = TreeObj [(''X.txt'', Regular, BlobObj ''new''),
                    (''fileA.txt'', Regular, BlobObj ''initial content'')]"

definition snapB :: hash where
  "snapB = CommitObj treeX [commitA] (wmemSig 5000) (wmemSig 5000)
             ''wmem-uid: wmem-250628-143022-abcdefgh''"

definition metaB1 :: meta_tree where
  "metaB1 = metaInit\<lparr>pathsFile := Content ''../my-projectA'',
                       workdirMapFile := Some [(''my-projectA'', ''../my-projectA'')]\<rparr>"

definition metaB2 :: meta_tree where
  "metaB2 = metaB1\<lparr>cacheFiles := [(''git-wmem-cache-my-projectA.json'', 2000)]\<rparr>"

definition summary1 :: meta_commit where
  "summary1 = MetaCommit
     (''wmem-uid: wmem-250628-143022-abcdefgh'' @ [CHR 0x0A, CHR 0x0A]
        @ ''Meta wmem-commit of workdir commits'' @ [CHR 0x0A]
        @ ''- `my-projectA` `main` `000000000000`'')
     (wmemSig 5000) (wmemSig 5000)"

definition summary2 :: meta_commit where
  "summary2 = MetaCommit
     (''wmem-uid: wmem-250628-143022-abcdefgh'' @ [CHR 0x0A, CHR 0x0A]
        @ ''Meta wmem-commit of workdir commits'' @ [CHR 0x0A]
        @ ''(No workdir changes - metadata only)'')
     (wmemSig 6000) (wmemSig 6000)"

definition storeB1 :: repo where
  "storeB1 = \<lparr> objects = {snapB, treeX, commitA},
       refs = [''refs/heads/wmem-br/main'' \<mapsto> snapB, ''refs/heads/wmem-br/head'' \<mapsto> snapB],
       symHEAD = ''refs/heads/wmem-br/main'',
       remotes = [(''wmem-wd'', ''/home/u/my-projectA'')] \<rparr>"

definition worldB1 :: world where
  "worldB1 = worldB\<lparr>metaTree := metaB1, metaHead := metaB1, metaLog := [summary1],
                     repos := [''my-projectA'' \<mapsto> storeB1]\<rparr>"

definition worldB2 :: world where
  "worldB2 = worldB1\<lparr>now := 6000, metaTree := metaB2, metaHead := metaB2,
                      metaLog := [summary2, summary1]\<rparr>"

text \<open>
  \<open>worldE\<close>: two new workdirs. \<open>my-projectA\<close> has the untracked file \<open>X.txt\<close>;
  \<open>my-projectB\<close> holds a symbolic link to a directory, which \<open>os.ReadFile\<close> cannot
  read. \<open>worldE1\<close> is the state after a run at time 5000.
\<close>

definition commitB0 :: hash where
  "commitB0 = CommitObj (TreeObj [(''fileB.txt'', Regular, BlobObj ''b'')]) [] sigDev sigDev
                ''Initial commit''"

definition projectBad :: node where
  "projectBad = Directory 2000 [gitDir, (''fileB.txt'', File 420 900 ''b''),
                               (''lnk'', Symlink 511 2000 ''/tmp'' (ToDir 0))]"

definition metaE :: meta_tree where
  "metaE = metaInit\<lparr>pathsFile :=
              Content (''../my-projectA'' @ [CHR 0x0A] @ ''../my-projectB'')\<rparr>"

definition worldE :: world where
  "worldE = worldA\<lparr>
      fsRoot := disk [(''my-projectA'', projectX), (''my-projectB'', projectBad)],
      wdGit := [''/home/u/my-projectA'' \<mapsto> repoA\<lparr>wdClean := False\<rparr>,
                ''/home/u/my-projectB'' \<mapsto>
                  \<lparr> wdHead = Some (''main'', commitB0), wdObjects = {commitB0},
                    wdClean = False \<rparr>],
      metaTree := metaE\<rparr>"

definition storeBad :: repo where
  "storeBad = \<lparr> objects = {commitB0},
       refs = [''refs/heads/wmem-br/main'' \<mapsto> commitB0],
       symHEAD = ''refs/heads/wmem-br/main'',
       remotes = [(''wmem-wd'', ''/home/u/my-projectB'')] \<rparr>"

definition worldE1 :: world where
  "worldE1 = worldE\<lparr>
      metaTree := metaE\<lparr>workdirMapFile :=
                     Some [(''my-projectA'', ''../my-projectA''),
                           (''my-projectB'', ''../my-projectB'')]\<rparr>,
      repos := [''my-projectB'' \<mapsto> storeBad, ''my-projectA'' \<mapsto> storeB1]\<rparr>"

text \<open>
  \<open>worldF\<close>: the workdir of \<open>worldA\<close> after an earlier run, unchanged since; the author
  file is empty, and the user has committed it so with Git in the meta-repository.
\<close>

definition metaF :: meta_tree where
  "metaF = metaInit\<lparr>pathsFile := Content ''../my-projectA'', authorFile := Content [],
                      workdirMapFile := Some [(''my-projectA'', ''../my-projectA'')],
                      cacheFiles := [(''git-wmem-cache-my-projectA.json'', 900)]\<rparr>"

definition worldF :: world where
  "worldF = worldA\<lparr>metaTree := metaF, metaHead := metaF,
      repos := [''my-projectA'' \<mapsto>
                 \<lparr> objects = {commitA},
                   refs = [''refs/heads/wmem-br/main'' \<mapsto> commitA],
                   symHEAD = ''refs/heads/wmem-br/main'',
                   remotes = [(''wmem-wd'', ''/home/u/my-projectA'')] \<rparr>]\<rparr>"

(*DEFS-END*)

section \<open>Verification\<close>

subsection \<open>Path validation\<close>

lemma traversalLoop_found: "traversalLoop True segs = (''..'' \<in> set segs)"
  by (induction segs) auto

lemma traversalLoop_start:
  "traversalLoop False segs = (''..'' \<in> set (dropWhile (\<lambda>s. s = ''..'' \<or> s = []) segs))"
  by (induction segs) (auto simp: traversalLoop_found)

lemma insideMeta_prefix: "insideMeta cwd a \<Longrightarrow> hasPrefix a cwd"
  by (auto simp: insideMeta_def hasPrefix_def prefix_def)

text \<open>
  C9. \<open>validateWorkdirPath\<close> returns an error for every path that is absolute, equals
  \<open>.\<close> or begins with \<open>./\<close>, does not begin with \<open>../\<close>, has a \<open>..\<close> segment after a
  segment other than \<open>..\<close>, or whose resolved target is missing, is not a directory, has no
  \<open>.git\<close> entry, or is the meta-repository or inside it. The textual conditions are
  conditions on the path as it was passed in, not on its cleaned form.
\<close>

theorem validateWorkdirPath_rejects:
  assumes "isAbs p \<or> p = ''.'' \<or> hasPrefix p ''./'' \<or> \<not> hasPrefix p ''../''
           \<or> dotDotAfterNormal p
           \<or> stat root (pathAbs cwd p) = None
           \<or> (\<exists>info. stat root (pathAbs cwd p) = Some info \<and> \<not> isDir info)
           \<or> stat root (pathJoin (pathAbs cwd p) ''.git'') = None
           \<or> insideMeta cwd (pathAbs cwd p)"
  shows "\<exists>e. validateWorkdirPath root cwd p = Inl e"
  using assms insideMeta_prefix[of cwd "pathAbs cwd p"]
  by (auto simp: validateWorkdirPath_def Let_def dotDotAfterNormal_def traversalLoop_start
           split: option.splits)

theorem validateWorkdirPath_rejects_witness:
  "dotDotAfterNormal ''../my-project/../../../etc''
   \<and> (\<exists>e. validateWorkdirPath (Directory 0 []) ''/home/u/wmem'' ''../my-project/../../../etc'' = Inl e)"
proof -
  have h: "dotDotAfterNormal ''../my-project/../../../etc''"
    by (simp add: dotDotAfterNormal_def split_def)
  show ?thesis
    using h validateWorkdirPath_rejects [of "''../my-project/../../../etc''" "Directory 0 []" "''/home/u/wmem''"]
    by blast
qed

end
